theory Spec2Isabelle
  imports Main "HOL-Library.Sublist"
begin

section \<open>Values shared by the client and the server\<close>

text \<open>
  A thrown JavaScript \<^verbatim>\<open>Error\<close> is a value carrying its message; an \<^verbatim>\<open>async\<close>
  function that rejects returns \<open>Inl\<close> of it, one that resolves returns \<open>Inr\<close>.
\<close>

datatype exn = Error (message: string)

text \<open>
  JSON values as \<^verbatim>\<open>JSON.parse\<close> yields them. An object is the list of its properties in
  enumeration order. A number is either an integer, \<open>JNum\<close> (printed in decimal, as
  JavaScript does below \<open>10 ^ 21\<close>), or any other number, \<open>JReal\<close>, kept as the text that
  JavaScript prints for it.
\<close>

datatype json =
    JNull
  | JBool bool
  | JNum int
  | JReal string
  | JStr string
  | JArr "json list"
  | JObj "(string \<times> json) list"

type_synonym json_object = "(string \<times> json) list"

subsection \<open>Strings and numbers\<close>

text \<open>
  A string is the list of its characters; the text handled here is ASCII, one character
  for each code unit of the JavaScript string.
\<close>

text \<open>\<^verbatim>\<open>Array.prototype.join\<close> on strings.\<close>

fun js_join :: "string \<Rightarrow> string list \<Rightarrow> string" where
  "js_join sep [] = []"
| "js_join sep [x] = x"
| "js_join sep (x # y # ys) = x @ sep @ js_join sep (y # ys)"

text \<open>The decimal digits of a natural number, as a template literal prints it.\<close>

fun show_nat :: "nat \<Rightarrow> string" where
  "show_nat n =
     (if n < 10 then [''0123456789'' ! n]
      else show_nat (n div 10) @ [''0123456789'' ! (n mod 10)])"

declare show_nat.simps [simp del]

definition show_int :: "int \<Rightarrow> string" where
  "show_int i = (if i < 0 then ''-'' @ show_nat (nat (- i)) else show_nat (nat i))"

text \<open>The value of a digit in any radix up to 36, as \<^verbatim>\<open>parseInt\<close> reads it.\<close>

definition digit_value :: "char \<Rightarrow> nat option" where
  "digit_value c =
     (let n = (of_char c :: nat) in
      if 48 \<le> n \<and> n \<le> 57 then Some (n - 48)
      else if 97 \<le> n \<and> n \<le> 122 then Some (n - 87)
      else if 65 \<le> n \<and> n \<le> 90 then Some (n - 55)
      else None)"

definition radix_digit :: "nat \<Rightarrow> char \<Rightarrow> bool" where
  "radix_digit R c = (case digit_value c of None \<Rightarrow> False | Some d \<Rightarrow> d < R)"

definition math_int :: "nat \<Rightarrow> string \<Rightarrow> nat" where
  "math_int R z =
     foldl (\<lambda>acc c. acc * R + (case digit_value c of None \<Rightarrow> 0 | Some d \<Rightarrow> d)) 0 z"

text \<open>
  A JavaScript number that \<^verbatim>\<open>parseInt\<close> can return. Numbers are IEEE doubles: an
  integer of more than 53 bits is rounded to the nearest double, ties to even, and to
  \<^verbatim>\<open>Infinity\<close> from \<open>2 ^ 1024 - 2 ^ 970\<close> on.
\<close>

datatype js_number = NaN | Infinity | NegInfinity | Number int

fun bit_length :: "nat \<Rightarrow> nat" where
  "bit_length n = (if n = 0 then 0 else Suc (bit_length (n div 2)))"

declare bit_length.simps [simp del]

definition round_to_double :: "nat \<Rightarrow> nat option" where
  "round_to_double n =
     (if n < 2 ^ 53 then Some n
      else
        let e = bit_length n - 53;
            q = n div 2 ^ e;
            r = n mod 2 ^ e;
            m = (if 2 ^ e < 2 * r \<or> (2 * r = 2 ^ e \<and> odd q) then q + 1 else q) * 2 ^ e
        in if 2 ^ 1024 \<le> m then None else Some m)"

text \<open>The ASCII white space, which \<^verbatim>\<open>parseInt\<close> and \<^verbatim>\<open>trim\<close> strip.\<close>

definition is_white_space :: "char \<Rightarrow> bool" where
  "is_white_space c \<longleftrightarrow> c \<in> set [CHR 0x09, CHR 0x0A, CHR 0x0B, CHR 0x0C, CHR 0x0D, CHR 0x20]"

text \<open>
  \<^verbatim>\<open>parseInt(s)\<close> with no radix: leading white space, a sign, the prefix
  \<^verbatim>\<open>0x\<close> for radix 16, then the longest run of digits; \<^verbatim>\<open>NaN\<close> when that run is empty.
\<close>

definition parseInt :: "string \<Rightarrow> js_number" where
  "parseInt s =
     (let s1 = dropWhile is_white_space s;
          negative = (case s1 of [] \<Rightarrow> False | c # _ \<Rightarrow> c = CHR ''-'');
          s2 = (case s1 of [] \<Rightarrow> [] | c # cs \<Rightarrow> if c = CHR ''+'' \<or> c = CHR ''-'' then cs else s1);
          hex = (take 2 s2 = ''0x'' \<or> take 2 s2 = ''0X'');
          R = (if hex then 16 else 10);
          s3 = (if hex then drop 2 s2 else s2);
          z = takeWhile (radix_digit R) s3
      in if z = [] then NaN
         else (case round_to_double (math_int R z) of
                 None \<Rightarrow> if negative then NegInfinity else Infinity
               | Some m \<Rightarrow> Number (if negative then - int m else int m)))"

text \<open>\<^verbatim>\<open>v === n\<close> for a property value \<open>v\<close> (\<open>None\<close> is \<^verbatim>\<open>undefined\<close>) and a number \<open>n\<close>.\<close>

definition strict_eq_number :: "json option \<Rightarrow> js_number \<Rightarrow> bool" where
  "strict_eq_number v n =
     (case (v, n) of (Some (JNum i), Number j) \<Rightarrow> i = j | _ \<Rightarrow> False)"

subsection \<open>Objects\<close>

text \<open>
  An own property key that is an array index (a canonical decimal below \<open>2 ^ 32 - 1\<close>)
  is enumerated before every other key, in ascending order; the other keys come in the
  order of their creation. Assigning to an existing key keeps its place.
\<close>

definition is_array_index :: "string \<Rightarrow> bool" where
  "is_array_index k \<longleftrightarrow>
     k \<noteq> [] \<and> list_all (radix_digit 10) k \<and> show_nat (math_int 10 k) = k
       \<and> math_int 10 k < 2 ^ 32 - 1"

fun define_prop :: "string \<Rightarrow> 'a \<Rightarrow> (string \<times> 'a) list \<Rightarrow> (string \<times> 'a) list" where
  "define_prop k v [] = [(k, v)]"
| "define_prop k v ((k', v') # ps) =
     (if k = k' then (k, v) # ps
      else if is_array_index k
              \<and> (\<not> is_array_index k' \<or> math_int 10 k < math_int 10 k')
        then (k, v) # (k', v') # ps
      else (k', v') # define_prop k v ps)"

text \<open>The own enumerable properties that a spread \<^verbatim>\<open>...v\<close> copies.\<close>

definition own_props :: "json \<Rightarrow> json_object" where
  "own_props v =
     (case v of
        JObj ps \<Rightarrow> ps
      | JArr xs \<Rightarrow> zip (map show_nat [0..<length xs]) xs
      | JStr s \<Rightarrow> zip (map show_nat [0..<length s]) (map (\<lambda>c. JStr [c]) s)
      | _ \<Rightarrow> [])"

text \<open>\<^verbatim>\<open>{ ...obj, ...v }\<close>: the properties of \<open>v\<close> assigned onto those of \<open>obj\<close>.\<close>

definition spread_onto :: "json_object \<Rightarrow> json \<Rightarrow> json_object" where
  "spread_onto obj v = foldl (\<lambda>acc (k, x). define_prop k x acc) obj (own_props v)"

text \<open>\<^verbatim>\<open>o.k\<close> on an object: \<open>None\<close> is \<^verbatim>\<open>undefined\<close>.\<close>

definition get_prop :: "string \<Rightarrow> json_object \<Rightarrow> json option" where
  "get_prop k obj = map_of obj k"

subsection \<open>JSON.stringify with an indentation of two spaces\<close>

definition hex_digit :: "nat \<Rightarrow> char" where
  "hex_digit d = ''0123456789abcdef'' ! d"

definition quote_char :: "char \<Rightarrow> string" where
  "quote_char c =
     (if c = CHR 0x22 then [CHR 0x5C, CHR 0x22]
      else if c = CHR 0x5C then [CHR 0x5C, CHR 0x5C]
      else if c = CHR 0x08 then [CHR 0x5C, CHR ''b'']
      else if c = CHR 0x0C then [CHR 0x5C, CHR ''f'']
      else if c = CHR 0x0A then [CHR 0x5C, CHR ''n'']
      else if c = CHR 0x0D then [CHR 0x5C, CHR ''r'']
      else if c = CHR 0x09 then [CHR 0x5C, CHR ''t'']
      else if (of_char c :: nat) < 32
        then [CHR 0x5C, CHR ''u'', CHR ''0'', CHR ''0'',
              hex_digit ((of_char c :: nat) div 16), hex_digit ((of_char c :: nat) mod 16)]
      else [c])"

definition quote :: "string \<Rightarrow> string" where
  "quote s = [CHR 0x22] @ concat (map quote_char s) @ [CHR 0x22]"

text \<open>\<open>ind\<close> is the indentation of the line on which the value starts.\<close>

fun stringify_at :: "string \<Rightarrow> json \<Rightarrow> string" where
  "stringify_at ind JNull = ''null''"
| "stringify_at ind (JBool b) = (if b then ''true'' else ''false'')"
| "stringify_at ind (JNum i) = show_int i"
| "stringify_at ind (JReal r) = r"
| "stringify_at ind (JStr s) = quote s"
| "stringify_at ind (JArr xs) =
     (if xs = [] then ''[]''
      else ''[\<newline>''
        @ js_join '',\<newline>''
            (map (\<lambda>x. (ind @ ''  '') @ stringify_at (ind @ ''  '') x) xs)
        @ ''\<newline>'' @ ind @ '']'')"
| "stringify_at ind (JObj ps) =
     (if ps = [] then ''{}''
      else ''{\<newline>''
        @ js_join '',\<newline>''
            (map (\<lambda>(k, v). (ind @ ''  '') @ quote k @ '': '' @ stringify_at (ind @ ''  '') v) ps)
        @ ''\<newline>'' @ ind @ ''}'')"

definition JSON_stringify :: "json \<Rightarrow> string" where
  "JSON_stringify v = stringify_at [] v"

text \<open>
  \<^verbatim>\<open>String(v)\<close>, which a template literal applies to an interpolated value;
  \<open>js_string_opt\<close> takes a value that may be \<^verbatim>\<open>undefined\<close>.
\<close>

fun js_string :: "json \<Rightarrow> string" where
  "js_string JNull = ''null''"
| "js_string (JBool b) = (if b then ''true'' else ''false'')"
| "js_string (JNum i) = show_int i"
| "js_string (JReal r) = r"
| "js_string (JStr s) = s"
| "js_string (JArr xs) = js_join '','' (map (\<lambda>x. if x = JNull then [] else js_string x) xs)"
| "js_string (JObj ps) = ''[object Object]''"

definition js_string_opt :: "json option \<Rightarrow> string" where
  "js_string_opt v = (case v of None \<Rightarrow> ''undefined'' | Some x \<Rightarrow> js_string x)"

text \<open>The \<^verbatim>\<open>TypeError\<close> of reading property \<open>p\<close> of \<^verbatim>\<open>undefined\<close> or \<^verbatim>\<open>null\<close>.\<close>

definition type_error :: "string \<Rightarrow> string \<Rightarrow> exn" where
  "type_error what p =
     Error (''Cannot read properties of '' @ what @ '' (reading '' @ [CHR 0x27] @ p
              @ [CHR 0x27] @ '')'')"

text \<open>
  \<^verbatim>\<open>v.p\<close> and \<^verbatim>\<open>v[i]\<close> on a value that may be \<^verbatim>\<open>undefined\<close>: reading a property of
  \<^verbatim>\<open>undefined\<close> or \<^verbatim>\<open>null\<close> throws; arrays and strings have a \<^verbatim>\<open>length\<close> and their
  indices; a missing property is \<^verbatim>\<open>undefined\<close>.
\<close>

definition js_get :: "json option \<Rightarrow> string \<Rightarrow> exn + json option" where
  "js_get v p =
     (case v of
        None \<Rightarrow> Inl (type_error ''undefined'' p)
      | Some JNull \<Rightarrow> Inl (type_error ''null'' p)
      | Some (JObj ps) \<Rightarrow> Inr (map_of ps p)
      | Some (JArr xs) \<Rightarrow>
          Inr (if p = ''length'' then Some (JNum (int (length xs)))
               else if is_array_index p \<and> math_int 10 p < length xs
                 then Some (xs ! math_int 10 p)
               else None)
      | Some (JStr s) \<Rightarrow>
          Inr (if p = ''length'' then Some (JNum (int (length s)))
               else if is_array_index p \<and> math_int 10 p < length s
                 then Some (JStr [s ! math_int 10 p])
               else None)
      | Some _ \<Rightarrow> Inr None)"

text \<open>The values that \<^verbatim>\<open>||\<close> and \<^verbatim>\<open>!\<close> take for true.\<close>

definition js_truthy :: "json option \<Rightarrow> bool" where
  "js_truthy v =
     (case v of
        None \<Rightarrow> False
      | Some JNull \<Rightarrow> False
      | Some (JBool b) \<Rightarrow> b
      | Some (JNum i) \<Rightarrow> i \<noteq> 0
      | Some (JStr s) \<Rightarrow> s \<noteq> []
      | Some _ \<Rightarrow> True)"

text \<open>\<^verbatim>\<open>String.prototype.trim\<close>.\<close>

definition trim :: "string \<Rightarrow> string" where
  "trim s = rev (dropWhile is_white_space (rev (dropWhile is_white_space s)))"

text \<open>\<^verbatim>\<open>a || d\<close> for an optional string \<open>a\<close>: the empty string is falsy too.\<close>

definition or_default :: "string option \<Rightarrow> string \<Rightarrow> string" where
  "or_default a d = (case a of None \<Rightarrow> d | Some s \<Rightarrow> if s = [] then d else s)"

subsection \<open>Protocol values\<close>

text \<open>
  The content of a message: its \<^verbatim>\<open>type\<close> tag and, for the tag \<^verbatim>\<open>"text"\<close>, its
  \<^verbatim>\<open>text\<close>.
\<close>

record content =
  ctype :: string
  ctext :: string

record prompt_message =
  mrole :: string
  mcontent :: content

text \<open>The parameters of a \<^verbatim>\<open>sampling/createMessage\<close> request and its result.\<close>

record create_message_request =
  messages :: "prompt_message list"
  req_maxTokens :: nat

record create_message_result =
  res_role :: string
  res_model :: string
  res_stopReason :: string
  res_content :: content

text \<open>A content part of a tool result; \<open>ptext\<close> is \<open>None\<close> where the part has no \<^verbatim>\<open>text\<close>.\<close>

record content_part =
  ptype :: string
  ptext :: "string option"

record call_tool_result =
  tr_content :: "content_part list"
  tr_isError :: bool

record resource_content =
  rc_uri :: string
  rc_text :: "string option"
  rc_mimeType :: string

section \<open>The client (client.ts)\<close>

subsection \<open>Capabilities, model calls and events\<close>

record tool =
  tool_name :: string
  tool_description :: "string option"
  tool_inputSchema :: json_object
  tool_title :: "string option"

record resource =
  rsrc_name :: string
  rsrc_uri :: string
  rsrc_description :: "string option"

record resource_template =
  tmpl_name :: string
  tmpl_uriTemplate :: string
  tmpl_description :: "string option"

record prompt =
  prompt_name :: string
  prompt_description :: "string option"
  prompt_arguments :: "string list option"

text \<open>
  One entry of the tool set handed to \<^verbatim>\<open>generateText\<close>: the description, the tool's
  input schema, and the name that its \<^verbatim>\<open>execute\<close> closure forwards to \<^verbatim>\<open>callTool\<close>.
\<close>

record tool_entry =
  te_description :: string
  te_parameters :: json_object
  te_execute :: string

record gen_args =
  ga_model :: string
  ga_prompt :: string
  ga_maxTokens :: nat
  ga_tools :: "(string \<times> tool_entry) list option"

text \<open>
  What \<^verbatim>\<open>generateText\<close> resolves to: the final text and the results of the tool calls;
  \<open>tres_result\<close> is \<open>None\<close> for a result that is \<^verbatim>\<open>undefined\<close>.
\<close>

record tool_result =
  tres_toolName :: string
  tres_result :: "call_tool_result option"

record gen_result =
  gr_text :: string
  gr_toolResults :: "tool_result list"

text \<open>A choice of a \<^verbatim>\<open>select\<close> prompt.\<close>

record choice =
  ch_name :: string
  ch_value :: string
  ch_description :: string

text \<open>
  Everything the client does to the outside world is an event; a run is the list of its
  events, oldest first.
\<close>

datatype event =
    ConsoleLog string
  | ConsoleError string
  | Confirm string bool
  | Input string string
  | Select string "choice list" string
  | Generate gen_args
  | Connect
  | Request string
  | AwaitAll
  | SetRequestHandler
  | CallTool string "(string \<times> string) list"
  | ReadResource string
  | GetPrompt string "(string \<times> string) list"

text \<open>
  The outside world answers as a function of the run so far and of the question asked:
  the operator at a prompt (who may also abort it), the model behind
  \<^verbatim>\<open>generateText\<close>, the server behind the \<^verbatim>\<open>Client\<close>. \<open>cenv_settle_order\<close> is the
  order in which the four discovery requests settle. \<^verbatim>\<open>JSON.parse\<close> is taken as given.
\<close>

record client_env =
  cenv_connect :: "event list \<Rightarrow> exn option"
  cenv_listTools :: "event list \<Rightarrow> exn + tool list"
  cenv_listResources :: "event list \<Rightarrow> exn + resource list"
  cenv_listResourceTemplates :: "event list \<Rightarrow> exn + resource_template list"
  cenv_listPrompts :: "event list \<Rightarrow> exn + prompt list"
  cenv_settle_order :: "event list \<Rightarrow> nat list"
  cenv_select :: "event list \<Rightarrow> string \<Rightarrow> choice list \<Rightarrow> exn + nat"
  cenv_input :: "event list \<Rightarrow> string \<Rightarrow> exn + string"
  cenv_confirm :: "event list \<Rightarrow> string \<Rightarrow> exn + bool"
  cenv_generateText :: "event list \<Rightarrow> gen_args \<Rightarrow> exn + gen_result"
  cenv_callTool :: "event list \<Rightarrow> string \<Rightarrow> (string \<times> string) list \<Rightarrow> exn + call_tool_result"
  cenv_readResource :: "event list \<Rightarrow> string \<Rightarrow> exn + resource_content list"
  cenv_getPrompt :: "event list \<Rightarrow> string \<Rightarrow> (string \<times> string) list \<Rightarrow> exn + prompt_message list"
  cenv_JSON_parse :: "string \<Rightarrow> exn + json"

text \<open>
  The three prompts of the console, each leaving its event. At a \<^verbatim>\<open>select\<close> the operator
  picks a position in the list of choices (taken modulo its length) and the prompt returns
  the value of that choice; a \<^verbatim>\<open>select\<close> without any choice fails.
\<close>

definition confirm :: "client_env \<Rightarrow> string \<Rightarrow> event list \<Rightarrow> (exn + bool) \<times> event list" where
  "confirm env msg tr =
     (case cenv_confirm env tr msg of
        Inl e \<Rightarrow> (Inl e, tr)
      | Inr b \<Rightarrow> (Inr b, tr @ [Confirm msg b]))"

definition input :: "client_env \<Rightarrow> string \<Rightarrow> event list \<Rightarrow> (exn + string) \<times> event list" where
  "input env msg tr =
     (case cenv_input env tr msg of
        Inl e \<Rightarrow> (Inl e, tr)
      | Inr v \<Rightarrow> (Inr v, tr @ [Input msg v]))"

definition select ::
  "client_env \<Rightarrow> string \<Rightarrow> choice list \<Rightarrow> event list \<Rightarrow> (exn + string) \<times> event list" where
  "select env msg choices tr =
     (case cenv_select env tr msg choices of
        Inl e \<Rightarrow> (Inl e, tr)
      | Inr i \<Rightarrow>
          if choices = []
          then (Inl (Error ''[select prompt] No selectable choices. All choices are disabled.''), tr)
          else let v = ch_value (choices ! (i mod length choices))
               in (Inr v, tr @ [Select msg choices v]))"

subsection \<open>handleServerMessagePrompt\<close>

definition unsupported_marker :: "string \<Rightarrow> string" where
  "unsupported_marker ty = ''Unsupported content type: '' @ ty"

definition cancelled_marker :: string where
  "cancelled_marker = ''Prompt execution cancelled.''"

definition confirm_question :: string where
  "confirm_question = ''Do you want to run this prompt?''"

definition prompt_args :: "string \<Rightarrow> gen_args" where
  "prompt_args p =
     \<lparr>ga_model = ''gemini-2.0-flash'', ga_prompt = p, ga_maxTokens = 1024, ga_tools = None\<rparr>"

definition handleServerMessagePrompt ::
  "client_env \<Rightarrow> prompt_message \<Rightarrow> event list \<Rightarrow> (exn + string) \<times> event list" where
  "handleServerMessagePrompt env msg tr =
     (if ctype (mcontent msg) \<noteq> ''text''
      then (Inr (unsupported_marker (ctype (mcontent msg))), tr)
      else
        (case confirm env confirm_question (tr @ [ConsoleLog (ctext (mcontent msg))]) of
           (Inl e, tr1) \<Rightarrow> (Inl e, tr1)
         | (Inr run, tr1) \<Rightarrow>
             if \<not> run then (Inr cancelled_marker, tr1)
             else
               (case cenv_generateText env tr1 (prompt_args (ctext (mcontent msg))) of
                  Inl e \<Rightarrow> (Inl e, tr1 @ [Generate (prompt_args (ctext (mcontent msg)))])
                | Inr r \<Rightarrow>
                    (Inr (gr_text r), tr1 @ [Generate (prompt_args (ctext (mcontent msg)))]))))"

subsection \<open>The handler of sampling requests\<close>

text \<open>
  The \<^verbatim>\<open>for\<close> loop of the handler: \<open>texts\<close> is the array built so far. A rejected
  \<^verbatim>\<open>await\<close> leaves the loop and the handler at once.
\<close>

fun sampling_loop ::
  "client_env \<Rightarrow> prompt_message list \<Rightarrow> string list \<Rightarrow> event list
     \<Rightarrow> (exn + string list) \<times> event list" where
  "sampling_loop env [] texts tr = (Inr texts, tr)"
| "sampling_loop env (msg # rest) texts tr =
     (case handleServerMessagePrompt env msg tr of
        (Inl e, tr') \<Rightarrow> (Inl e, tr')
      | (Inr text, tr') \<Rightarrow>
          sampling_loop env rest (if text \<noteq> [] then texts @ [text] else texts) tr')"

definition sampling_response :: "string list \<Rightarrow> create_message_result" where
  "sampling_response texts =
     \<lparr>res_role = ''user'', res_model = ''google/gemini-2.0-flash'',
      res_stopReason = ''endTurn'',
      res_content = \<lparr>ctype = ''text'', ctext = js_join ''\<newline>'' texts\<rparr>\<rparr>"

definition createMessageHandler ::
  "client_env \<Rightarrow> create_message_request \<Rightarrow> event list
     \<Rightarrow> (exn + create_message_result) \<times> event list" where
  "createMessageHandler env request tr =
     (case sampling_loop env (messages request) [] tr of
        (Inl e, tr') \<Rightarrow> (Inl e, tr')
      | (Inr texts, tr') \<Rightarrow> (Inr (sampling_response texts), tr'))"

text \<open>The model calls of a run.\<close>

fun is_generate :: "event \<Rightarrow> bool" where
  "is_generate (Generate _) = True"
| "is_generate _ = False"

subsection \<open>handleQuery\<close>

text \<open>
  The \<^verbatim>\<open>reduce\<close> that builds the tool set: a later tool of the same name replaces the
  entry of an earlier one.
\<close>

definition tool_set :: "tool list \<Rightarrow> (string \<times> tool_entry) list" where
  "tool_set tools =
     foldl (\<lambda>obj t. define_prop (tool_name t)
                \<lparr>te_description = or_default (tool_description t) ''No description available'',
                 te_parameters = tool_inputSchema t,
                 te_execute = tool_name t\<rparr> obj) [] tools"

text \<open>\<^verbatim>\<open>toolResults[0]?.result?.content[0]?.text\<close>; \<open>None\<close> is \<^verbatim>\<open>undefined\<close>.\<close>

definition first_tool_text :: "tool_result list \<Rightarrow> string option" where
  "first_tool_text results =
     (case results of
        [] \<Rightarrow> None
      | t # _ \<Rightarrow>
          (case tres_result t of
             None \<Rightarrow> None
           | Some res \<Rightarrow> (case tr_content res of [] \<Rightarrow> None | p # _ \<Rightarrow> ptext p)))"

definition no_response :: string where
  "no_response = ''No response generated.''"

text \<open>\<^verbatim>\<open>text || toolResults[0]?.result?.content[0]?.text || "No response generated."\<close>\<close>

definition query_answer :: "gen_result \<Rightarrow> string" where
  "query_answer r =
     (if gr_text r \<noteq> [] then gr_text r
      else (case first_tool_text (gr_toolResults r) of
              None \<Rightarrow> no_response
            | Some t \<Rightarrow> if t \<noteq> [] then t else no_response))"

definition query_args :: "string \<Rightarrow> tool list \<Rightarrow> gen_args" where
  "query_args query tools =
     \<lparr>ga_model = ''gemini-2.0-flash'', ga_prompt = query, ga_maxTokens = 1024,
      ga_tools = Some (tool_set tools)\<rparr>"

definition handleQuery ::
  "client_env \<Rightarrow> tool list \<Rightarrow> event list \<Rightarrow> (exn + unit) \<times> event list" where
  "handleQuery env tools tr =
     (case input env ''Enter your query:'' tr of
        (Inl e, tr1) \<Rightarrow> (Inl e, tr1)
      | (Inr query, tr1) \<Rightarrow>
          (case cenv_generateText env tr1 (query_args query tools) of
             Inl e \<Rightarrow> (Inl e, tr1 @ [Generate (query_args query tools)])
           | Inr r \<Rightarrow>
               (Inr (),
                tr1 @ [Generate (query_args query tools),
                       ConsoleLog (''Query response: '' @ query_answer r)])))"

subsection \<open>handleTool\<close>

text \<open>\<^verbatim>\<open>Object.entries(tool.inputSchema.properties ?? {})\<close>\<close>

definition schema_entries :: "json_object \<Rightarrow> (string \<times> json) list" where
  "schema_entries schema =
     (case get_prop ''properties'' schema of
        None \<Rightarrow> []
      | Some JNull \<Rightarrow> []
      | Some v \<Rightarrow> own_props v)"

text \<open>The loop that asks for one value per declared field.\<close>

fun collect_tool_args ::
  "client_env \<Rightarrow> (string \<times> json) list \<Rightarrow> (string \<times> string) list \<Rightarrow> event list
     \<Rightarrow> (exn + (string \<times> string) list) \<times> event list" where
  "collect_tool_args env [] args tr = (Inr args, tr)"
| "collect_tool_args env ((key, v) # rest) args tr =
     (case js_get (Some v) ''type'' of
        Inl e \<Rightarrow> (Inl e, tr)
      | Inr ty \<Rightarrow>
          (case input env (''Enter value for '' @ key @ '' ('' @ js_string_opt ty @ ''):'') tr of
             (Inl e, tr1) \<Rightarrow> (Inl e, tr1)
           | (Inr answer, tr1) \<Rightarrow>
               collect_tool_args env rest (define_prop key answer args) tr1))"

definition handleTool ::
  "client_env \<Rightarrow> tool \<Rightarrow> event list \<Rightarrow> (exn + unit) \<times> event list" where
  "handleTool env t tr =
     (case collect_tool_args env (schema_entries (tool_inputSchema t)) []
             (tr @ [ConsoleLog (''Handling tool: '' @ tool_name t)]) of
        (Inl e, tr1) \<Rightarrow> (Inl e, tr1)
      | (Inr args, tr1) \<Rightarrow>
          (case cenv_callTool env tr1 (tool_name t) args of
             Inl e \<Rightarrow> (Inl e, tr1 @ [CallTool (tool_name t) args])
           | Inr res \<Rightarrow>
               (case tr_content res of
                  [] \<Rightarrow>
                    (Inl (type_error ''undefined'' ''text''),
                     tr1 @ [CallTool (tool_name t) args])
                | p # _ \<Rightarrow>
                    (Inr (),
                     tr1 @ [CallTool (tool_name t) args,
                            ConsoleLog (''Tool response: ''
                              @ (case ptext p of None \<Rightarrow> ''undefined'' | Some text \<Rightarrow> text))]))))"

subsection \<open>handleResource\<close>

text \<open>
  \<^verbatim>\<open>uri.match(/{([^}]+)}/g)\<close>: from left to right, every opening brace that is followed
  by at least one character other than a closing brace and then by a closing brace; the
  search goes on after the match.
\<close>

fun placeholders :: "string \<Rightarrow> string list" where
  "placeholders [] = []"
| "placeholders (c # cs) =
     (if c = CHR ''{'' \<and> takeWhile (\<lambda>x. x \<noteq> CHR ''}'') cs \<noteq> []
          \<and> length (takeWhile (\<lambda>x. x \<noteq> CHR ''}'') cs) < length cs
      then (c # takeWhile (\<lambda>x. x \<noteq> CHR ''}'') cs @ ''}'')
             # placeholders (drop (Suc (length (takeWhile (\<lambda>x. x \<noteq> CHR ''}'') cs))) cs)
      else placeholders cs)"

text \<open>
  \<^verbatim>\<open>s.replace(pat, rep)\<close> with a string pattern: the first occurrence only, and in the
  replacement \<^verbatim>\<open>$$\<close> stands for a dollar, \<^verbatim>\<open>$&\<close> for the match, \<^verbatim>\<open>$`\<close> for what
  precedes it and \<^verbatim>\<open>$'\<close> for what follows it.
\<close>

fun split_first :: "string \<Rightarrow> string \<Rightarrow> (string \<times> string) option" where
  "split_first pat [] = (if pat = [] then Some ([], []) else None)"
| "split_first pat (c # cs) =
     (if take (length pat) (c # cs) = pat then Some ([], drop (length pat) (c # cs))
      else map_option (\<lambda>(left, right). (c # left, right)) (split_first pat cs))"

fun expand_replacement :: "string \<Rightarrow> string \<Rightarrow> string \<Rightarrow> string \<Rightarrow> string" where
  "expand_replacement (c # d # rest) matched left right =
     (if c = CHR ''$'' \<and> d = CHR ''$'' then CHR ''$'' # expand_replacement rest matched left right
      else if c = CHR ''$'' \<and> d = CHR ''&'' then matched @ expand_replacement rest matched left right
      else if c = CHR ''$'' \<and> d = CHR 0x60 then left @ expand_replacement rest matched left right
      else if c = CHR ''$'' \<and> d = CHR 0x27 then right @ expand_replacement rest matched left right
      else c # expand_replacement (d # rest) matched left right)"
| "expand_replacement rep matched left right = rep"

definition js_replace :: "string \<Rightarrow> string \<Rightarrow> string \<Rightarrow> string" where
  "js_replace pat rep s =
     (case split_first pat s of
        None \<Rightarrow> s
      | Some (left, right) \<Rightarrow> left @ expand_replacement rep pat left right @ right)"

fun fill_placeholders ::
  "client_env \<Rightarrow> string list \<Rightarrow> string \<Rightarrow> event list \<Rightarrow> (exn + string) \<times> event list" where
  "fill_placeholders env [] finalUri tr = (Inr finalUri, tr)"
| "fill_placeholders env (paramMatch # rest) finalUri tr =
     (case input env
             (''Enter value for '' @ js_replace ''}'' [] (js_replace ''{'' [] paramMatch) @ '':'')
             tr of
        (Inl e, tr1) \<Rightarrow> (Inl e, tr1)
      | (Inr paramValue, tr1) \<Rightarrow>
          fill_placeholders env rest (js_replace paramMatch paramValue finalUri) tr1)"

definition handleResource ::
  "client_env \<Rightarrow> string \<Rightarrow> event list \<Rightarrow> (exn + unit) \<times> event list" where
  "handleResource env uri tr =
     (case fill_placeholders env (placeholders uri) uri
             (tr @ [ConsoleLog (''Handling resource: '' @ uri)]) of
        (Inl e, tr1) \<Rightarrow> (Inl e, tr1)
      | (Inr finalUri, tr1) \<Rightarrow>
          (case cenv_readResource env tr1 finalUri of
             Inl e \<Rightarrow> (Inl e, tr1 @ [ReadResource finalUri])
           | Inr contents \<Rightarrow>
               (case contents of
                  [] \<Rightarrow> (Inl (type_error ''undefined'' ''text''), tr1 @ [ReadResource finalUri])
                | c # _ \<Rightarrow>
                    (case cenv_JSON_parse env
                            (case rc_text c of None \<Rightarrow> ''undefined'' | Some text \<Rightarrow> text) of
                       Inl e \<Rightarrow> (Inl e, tr1 @ [ReadResource finalUri])
                     | Inr v \<Rightarrow>
                         (Inr (),
                          tr1 @ [ReadResource finalUri,
                                 ConsoleLog (''Resource response: '' @ JSON_stringify v)])))))"

subsection \<open>handlePrompt\<close>

fun collect_prompt_args ::
  "client_env \<Rightarrow> string list \<Rightarrow> (string \<times> string) list \<Rightarrow> event list
     \<Rightarrow> (exn + (string \<times> string) list) \<times> event list" where
  "collect_prompt_args env [] args tr = (Inr args, tr)"
| "collect_prompt_args env (name # rest) args tr =
     (case input env (''Enter value for '' @ name @ '':'') tr of
        (Inl e, tr1) \<Rightarrow> (Inl e, tr1)
      | (Inr answer, tr1) \<Rightarrow> collect_prompt_args env rest (define_prop name answer args) tr1)"

fun show_prompt_messages ::
  "client_env \<Rightarrow> prompt_message list \<Rightarrow> event list \<Rightarrow> (exn + unit) \<times> event list" where
  "show_prompt_messages env [] tr = (Inr (), tr)"
| "show_prompt_messages env (msg # rest) tr =
     (case handleServerMessagePrompt env msg tr of
        (Inl e, tr1) \<Rightarrow> (Inl e, tr1)
      | (Inr text, tr1) \<Rightarrow>
          show_prompt_messages env rest (tr1 @ [ConsoleLog (''Prompt response: '' @ text)]))"

definition handlePrompt ::
  "client_env \<Rightarrow> prompt \<Rightarrow> event list \<Rightarrow> (exn + unit) \<times> event list" where
  "handlePrompt env p tr =
     (case collect_prompt_args env
             (case prompt_arguments p of None \<Rightarrow> [] | Some names \<Rightarrow> names) []
             (tr @ [ConsoleLog (''Handling prompt: '' @ prompt_name p)]) of
        (Inl e, tr1) \<Rightarrow> (Inl e, tr1)
      | (Inr args, tr1) \<Rightarrow>
          (case cenv_getPrompt env tr1 (prompt_name p) args of
             Inl e \<Rightarrow> (Inl e, tr1 @ [GetPrompt (prompt_name p) args])
           | Inr msgs \<Rightarrow>
               show_prompt_messages env msgs (tr1 @ [GetPrompt (prompt_name p) args])))"

subsection \<open>main\<close>

text \<open>The capabilities that the four discovery calls return.\<close>

record snapshot =
  snap_tools :: "tool list"
  snap_resources :: "resource list"
  snap_templates :: "resource_template list"
  snap_prompts :: "prompt list"

text \<open>
  \<^verbatim>\<open>Promise.all\<close> of the four discovery calls: it resolves to the four results when all
  resolve, and rejects with the rejection that settles first otherwise (the first listed
  in \<open>order\<close>, then by position).
\<close>

definition first_rejection :: "nat list \<Rightarrow> exn option list \<Rightarrow> exn option" where
  "first_rejection order errs =
     (case filter (\<lambda>i. i < length errs \<and> errs ! i \<noteq> None) (order @ [0..<length errs]) of
        [] \<Rightarrow> None
      | i # _ \<Rightarrow> errs ! i)"

definition rejection :: "exn + 'a \<Rightarrow> exn option" where
  "rejection r = (case r of Inl e \<Rightarrow> Some e | Inr _ \<Rightarrow> None)"

definition promise_all ::
  "nat list \<Rightarrow> exn + tool list \<Rightarrow> exn + resource list \<Rightarrow> exn + resource_template list
     \<Rightarrow> exn + prompt list \<Rightarrow> exn + snapshot" where
  "promise_all order a b c d =
     (case (a, b, c, d) of
        (Inr tools, Inr resources, Inr templates, Inr prompts) \<Rightarrow>
          Inr \<lparr>snap_tools = tools, snap_resources = resources, snap_templates = templates,
               snap_prompts = prompts\<rparr>
      | _ \<Rightarrow>
          (case first_rejection order [rejection a, rejection b, rejection c, rejection d] of
             Some e \<Rightarrow> Inl e
           | None \<Rightarrow> Inl (Error [])))"

text \<open>How \<^verbatim>\<open>main\<close> stands after a number of rounds of its menu.\<close>

datatype outcome = Returned | Threw exn | Running

definition plain_choice :: "string \<Rightarrow> choice" where
  "plain_choice v = \<lparr>ch_name = v, ch_value = v, ch_description = []\<rparr>"

definition no_description :: string where
  "no_description = ''No description available''"

text \<open>
  The three branches of the menu that select a capability; when the selected capability
  is not found, the branch ends with \<^verbatim>\<open>continue\<close>.
\<close>

definition tools_branch ::
  "client_env \<Rightarrow> tool list \<Rightarrow> event list \<Rightarrow> (exn + unit) \<times> event list" where
  "tools_branch env tools tr =
     (case select env ''Select a tool''
             (map (\<lambda>t. \<lparr>ch_name = or_default (tool_title t) (tool_name t),
                        ch_value = tool_name t,
                        ch_description = or_default (tool_description t) no_description\<rparr>)
                tools) tr of
        (Inl e, tr1) \<Rightarrow> (Inl e, tr1)
      | (Inr toolName, tr1) \<Rightarrow>
          (case find (\<lambda>t. tool_name t = toolName) tools of
             None \<Rightarrow>
               (Inr (), tr1 @ [ConsoleLog (''Selected tool: '' @ toolName),
                               ConsoleError ''Tool not found''])
           | Some t \<Rightarrow>
               handleTool env t (tr1 @ [ConsoleLog (''Selected tool: '' @ toolName)])))"

definition resources_branch ::
  "client_env \<Rightarrow> resource list \<Rightarrow> resource_template list \<Rightarrow> event list
     \<Rightarrow> (exn + unit) \<times> event list" where
  "resources_branch env resources templates tr =
     (case select env ''Select a resource''
             (map (\<lambda>r. \<lparr>ch_name = rsrc_name r, ch_value = rsrc_uri r,
                        ch_description = or_default (rsrc_description r) no_description\<rparr>)
                resources
              @ map (\<lambda>t. \<lparr>ch_name = tmpl_name t, ch_value = tmpl_uriTemplate t,
                          ch_description = or_default (tmpl_description t) no_description\<rparr>)
                  templates) tr of
        (Inl e, tr1) \<Rightarrow> (Inl e, tr1)
      | (Inr resourceUri, tr1) \<Rightarrow>
          (case (case find (\<lambda>r. rsrc_uri r = resourceUri) resources of
                   Some r \<Rightarrow> Some (rsrc_uri r)
                 | None \<Rightarrow>
                     map_option tmpl_uriTemplate
                       (find (\<lambda>t. tmpl_uriTemplate t = resourceUri) templates)) of
             None \<Rightarrow>
               (Inr (), tr1 @ [ConsoleLog (''Selected resource: '' @ resourceUri),
                               ConsoleError ''Resource not found''])
           | Some uri \<Rightarrow>
               if uri = []
               then (Inr (), tr1 @ [ConsoleLog (''Selected resource: '' @ resourceUri),
                                    ConsoleError ''Resource not found''])
               else handleResource env uri
                      (tr1 @ [ConsoleLog (''Selected resource: '' @ resourceUri)])))"

definition prompts_branch ::
  "client_env \<Rightarrow> prompt list \<Rightarrow> event list \<Rightarrow> (exn + unit) \<times> event list" where
  "prompts_branch env prompts tr =
     (case select env ''Select a prompt''
             (map (\<lambda>p. \<lparr>ch_name = prompt_name p, ch_value = prompt_name p,
                        ch_description = or_default (prompt_description p) no_description\<rparr>)
                prompts) tr of
        (Inl e, tr1) \<Rightarrow> (Inl e, tr1)
      | (Inr promptName, tr1) \<Rightarrow>
          (case find (\<lambda>p. prompt_name p = promptName) prompts of
             None \<Rightarrow>
               (Inr (), tr1 @ [ConsoleLog (''Selected prompt: '' @ promptName),
                               ConsoleError ''Prompt not found''])
           | Some p \<Rightarrow>
               handlePrompt env p (tr1 @ [ConsoleLog (''Selected prompt: '' @ promptName)])))"

text \<open>
  The \<^verbatim>\<open>while (true)\<close> of \<^verbatim>\<open>main\<close>, for at most \<open>n\<close> rounds: \<open>Running\<close> when the
  session is still at its menu after them.
\<close>

fun menu_loop :: "client_env \<Rightarrow> snapshot \<Rightarrow> nat \<Rightarrow> event list \<Rightarrow> outcome \<times> event list" where
  "menu_loop env snap 0 tr = (Running, tr)"
| "menu_loop env snap (Suc n) tr =
     (case select env ''Select an option''
             (map plain_choice [''Query'', ''Tools'', ''Resources'', ''Prompts'', ''Exit'']) tr of
        (Inl e, tr1) \<Rightarrow> (Threw e, tr1)
      | (Inr option, tr1) \<Rightarrow>
          if option = ''Exit'' then (Returned, tr1 @ [ConsoleLog ''Exiting...''])
          else
            (case (if option = ''Query'' then handleQuery env (snap_tools snap) tr1
                   else if option = ''Tools'' then tools_branch env (snap_tools snap) tr1
                   else if option = ''Resources''
                     then resources_branch env (snap_resources snap) (snap_templates snap) tr1
                   else if option = ''Prompts'' then prompts_branch env (snap_prompts snap) tr1
                   else (Inr (), tr1)) of
               (Inl e, tr2) \<Rightarrow> (Threw e, tr2)
             | (Inr _, tr2) \<Rightarrow> menu_loop env snap n tr2))"

definition discovery_requests :: "event list" where
  "discovery_requests =
     [Connect, Request ''tools/list'', Request ''resources/list'',
      Request ''resources/templates/list'', Request ''prompts/list'']"

text \<open>
  \<^verbatim>\<open>main\<close>, with at most \<open>n\<close> rounds of the menu. The four list calls send their
  requests one after the other before \<^verbatim>\<open>Promise.all\<close> is awaited.
\<close>

definition main :: "client_env \<Rightarrow> nat \<Rightarrow> outcome \<times> event list" where
  "main env n =
     (case cenv_connect env [] of
        Some e \<Rightarrow> (Threw e, [Connect])
      | None \<Rightarrow>
          (case promise_all (cenv_settle_order env discovery_requests)
                  (cenv_listTools env discovery_requests)
                  (cenv_listResources env discovery_requests)
                  (cenv_listResourceTemplates env discovery_requests)
                  (cenv_listPrompts env discovery_requests) of
             Inl e \<Rightarrow> (Threw e, discovery_requests @ [AwaitAll])
           | Inr snap \<Rightarrow>
               menu_loop env snap n
                 (discovery_requests @ [AwaitAll, SetRequestHandler, ConsoleLog ''Connected!''])))"

text \<open>The events by which the session acts for the operator: prompts, model calls and calls to the server.\<close>

fun is_action :: "event \<Rightarrow> bool" where
  "is_action (Confirm _ _) = True"
| "is_action (Input _ _) = True"
| "is_action (Select _ _ _) = True"
| "is_action (Generate _) = True"
| "is_action (CallTool _ _) = True"
| "is_action (ReadResource _) = True"
| "is_action (GetPrompt _ _) = True"
| "is_action _ = False"

section \<open>The server (main.ts)\<close>

subsection \<open>The world of the server\<close>

datatype server_event =
    ImportUsers
  | Fetch string
  | SamplingRequest create_message_request
  | ServerLog string
  | WriteFile string string

text \<open>
  The outside world of the server, answering as a function of the run so far: the file
  \<^verbatim>\<open>./data/users.json\<close> when the module is first imported (an array of user objects, or
  a failure to load it), the geocoding service (the body that \<^verbatim>\<open>fetch\<close> and
  \<^verbatim>\<open>response.json()\<close> deliver, or the failure of either), the client answering a
  sampling request, and the file system at a write. \<^verbatim>\<open>JSON.parse\<close> is taken as given.
\<close>

record server_env =
  senv_import_users :: "server_event list \<Rightarrow> exn + json_object list"
  senv_fetch_json :: "server_event list \<Rightarrow> string \<Rightarrow> exn + json"
  senv_request :: "server_event list \<Rightarrow> create_message_request \<Rightarrow> exn + create_message_result"
  senv_writeFile :: "server_event list \<Rightarrow> string \<Rightarrow> string \<Rightarrow> exn option"
  senv_JSON_parse :: "string \<Rightarrow> exn + json"

text \<open>
  The state of the server process: the array exported by the module
  \<^verbatim>\<open>./data/users.json\<close> once it has been imported (every later \<^verbatim>\<open>import\<close> yields the
  same array, which \<^verbatim>\<open>push\<close> mutates), and the events so far.
\<close>

record server_state =
  users_module :: "json_object list option"
  events :: "server_event list"

definition import_users ::
  "server_env \<Rightarrow> server_state \<Rightarrow> (exn + json_object list) \<times> server_state" where
  "import_users env st =
     (case users_module st of
        Some users \<Rightarrow> (Inr users, st)
      | None \<Rightarrow>
          (case senv_import_users env (events st) of
             Inl e \<Rightarrow> (Inl e, st\<lparr>events := events st @ [ImportUsers]\<rparr>)
           | Inr users \<Rightarrow>
               (Inr users,
                st\<lparr>users_module := Some users, events := events st @ [ImportUsers]\<rparr>)))"

subsection \<open>Resources\<close>

definition json_content :: "string \<Rightarrow> json \<Rightarrow> resource_content" where
  "json_content href v =
     \<lparr>rc_uri = href, rc_text = Some (JSON_stringify v), rc_mimeType = ''application/json''\<rparr>"

text \<open>The resource \<^verbatim>\<open>users://all\<close>; \<open>href\<close> is \<^verbatim>\<open>uri.href\<close>.\<close>

definition users_resource ::
  "server_env \<Rightarrow> string \<Rightarrow> server_state \<Rightarrow> (exn + resource_content list) \<times> server_state" where
  "users_resource env href st =
     (case import_users env st of
        (Inl e, st1) \<Rightarrow> (Inl e, st1)
      | (Inr users, st1) \<Rightarrow> (Inr [json_content href (JArr (map JObj users))], st1))"

text \<open>
  The resource template \<^verbatim>\<open>users://{id}/profile\<close>: the handler receives the value of the
  placeholder \<^verbatim>\<open>id\<close>.
\<close>

definition user_details ::
  "server_env \<Rightarrow> string \<Rightarrow> string \<Rightarrow> server_state
     \<Rightarrow> (exn + resource_content list) \<times> server_state" where
  "user_details env href id' st =
     (case import_users env st of
        (Inl e, st1) \<Rightarrow> (Inl e, st1)
      | (Inr users, st1) \<Rightarrow>
          (case find (\<lambda>u. strict_eq_number (get_prop ''id'' u) (parseInt id')) users of
             None \<Rightarrow>
               (Inr [json_content href (JObj [(''error'', JStr ''User not found'')])], st1)
           | Some user \<Rightarrow> (Inr [json_content href (JObj user)], st1)))"

subsection \<open>createUser\<close>

definition users_path :: string where
  "users_path = ''./data/users.json''"

text \<open>
  The new array is in the module from the \<^verbatim>\<open>push\<close> on, whether or not the write that
  follows succeeds.
\<close>

definition createUser ::
  "server_env \<Rightarrow> json \<Rightarrow> server_state \<Rightarrow> (exn + nat) \<times> server_state" where
  "createUser env user st =
     (case import_users env st of
        (Inl e, st1) \<Rightarrow> (Inl e, st1)
      | (Inr users, st1) \<Rightarrow>
          let id' = length users + 1;
              users' = users @ [spread_onto [(''id'', JNum (int id'))] user];
              data = JSON_stringify (JArr (map JObj users'));
              st2 = st1\<lparr>users_module := Some users',
                        events := events st1 @ [WriteFile users_path data]\<rparr>
          in (case senv_writeFile env (events st1) users_path data of
                Some e \<Rightarrow> (Inl e, st2)
              | None \<Rightarrow> (Inr id', st2)))"

subsection \<open>Tools\<close>

definition text_result :: "string \<Rightarrow> call_tool_result" where
  "text_result t = \<lparr>tr_content = [\<lparr>ptype = ''text'', ptext = Some t\<rparr>], tr_isError = False\<rparr>"

definition geocoding_url :: "string \<Rightarrow> string" where
  "geocoding_url city =
     ''https://geocoding-api.open-meteo.com/v1/search?name='' @ city
       @ ''&count=10&language=en&format=json''"

text \<open>\<^verbatim>\<open>${v || "unknown"}\<close>\<close>

definition or_unknown :: "json option \<Rightarrow> string" where
  "or_unknown v = (if js_truthy v then js_string_opt v else ''unknown'')"

text \<open>The body of the \<^verbatim>\<open>try\<close> of \<^verbatim>\<open>get-coordinates\<close>, from the outcome of the fetch on.\<close>

definition coordinates_of :: "string \<Rightarrow> exn + json \<Rightarrow> exn + call_tool_result" where
  "coordinates_of city fetched =
     (case fetched of
        Inl e \<Rightarrow> Inl e
      | Inr data \<Rightarrow>
     (case js_get (Some data) ''results'' of
        Inl e \<Rightarrow> Inl e
      | Inr results \<Rightarrow>
     (case js_get results ''length'' of
        Inl e \<Rightarrow> Inl e
      | Inr len \<Rightarrow>
          if len = Some (JNum 0) then Inr (text_result (''No data found for '' @ city @ ''.''))
          else
     (case js_get results ''0'' of
        Inl e \<Rightarrow> Inl e
      | Inr first \<Rightarrow>
     (case js_get first ''latitude'' of
        Inl e \<Rightarrow> Inl e
      | Inr latitude \<Rightarrow>
     (case js_get first ''longitude'' of
        Inl e \<Rightarrow> Inl e
      | Inr longitude \<Rightarrow>
          Inr (text_result (''Data for '' @ city @ '' is '' @ or_unknown latitude @ '' and ''
                 @ or_unknown longitude @ ''!''))))))))"

definition get_coordinates ::
  "server_env \<Rightarrow> string \<Rightarrow> server_state \<Rightarrow> (exn + call_tool_result) \<times> server_state" where
  "get_coordinates env city st =
     (let st1 = st\<lparr>events := events st @ [Fetch (geocoding_url city)]\<rparr>
      in case coordinates_of city (senv_fetch_json env (events st) (geocoding_url city)) of
           Inr res \<Rightarrow> (Inr res, st1)
         | Inl error \<Rightarrow>
             (Inr (text_result (''Error fetching coordinates data for '' @ city @ '': ''
                     @ message error)), st1))"

definition create_user ::
  "server_env \<Rightarrow> string \<Rightarrow> string \<Rightarrow> server_state
     \<Rightarrow> (exn + call_tool_result) \<times> server_state" where
  "create_user env name email st =
     (case createUser env (JObj [(''name'', JStr name), (''email'', JStr email)]) st of
        (Inr id', st1) \<Rightarrow>
          (Inr (text_result (''User '' @ show_nat id' @ '' created successfully: '' @ name
                  @ '' ('' @ email @ '')'')), st1)
      | (Inl error, st1) \<Rightarrow>
          (Inr (text_result (''Error creating user: '' @ message error)), st1))"

definition fake_user_request :: create_message_request where
  "fake_user_request =
     \<lparr>messages =
        [\<lparr>mrole = ''user'',
          mcontent =
            \<lparr>ctype = ''text'',
             ctext = ''Create a random user with fake data. The user should have a name, a valid email address and a unique int Id. Return this data as a JSON object.''\<rparr>\<rparr>],
      req_maxTokens = 1024\<rparr>"

text \<open>
  \<^verbatim>\<open>text.trim().replace(/^```json/, "").replace(/```$/, "").trim()\<close>
\<close>

definition strip_fence :: "string \<Rightarrow> string" where
  "strip_fence text =
     (let s1 = trim text;
          s2 = (if take 7 s1 = ''```json'' then drop 7 s1 else s1);
          s3 = (if 3 \<le> length s2 \<and> drop (length s2 - 3) s2 = ''```''
                then take (length s2 - 3) s2 else s2)
      in trim s3)"

text \<open>
  \<^verbatim>\<open>create-random-user\<close>: the sampling request is awaited outside the \<^verbatim>\<open>try\<close>, so its
  rejection is the rejection of the handler.
\<close>

definition create_random_user ::
  "server_env \<Rightarrow> server_state \<Rightarrow> (exn + call_tool_result) \<times> server_state" where
  "create_random_user env st =
     (let st1 = st\<lparr>events := events st @ [SamplingRequest fake_user_request]\<rparr>
      in case senv_request env (events st) fake_user_request of
           Inl e \<Rightarrow> (Inl e, st1)
         | Inr res \<Rightarrow>
             let st2 = st1\<lparr>events := events st1 @
                         [ServerLog (if ctype (res_content res) = ''text''
                                     then ctext (res_content res) else ''undefined'')]\<rparr>
             in if ctype (res_content res) \<noteq> ''text''
                then (Inr (text_result ''Error: Failed to generate fake user data.''), st2)
                else
                  (case (case senv_JSON_parse env (strip_fence (ctext (res_content res))) of
                           Inl e \<Rightarrow> (Inl e, st2)
                         | Inr fakeUser \<Rightarrow> createUser env fakeUser st2) of
                     (Inr id', st3) \<Rightarrow>
                       (Inr (text_result (''Fake user created successfully: '' @ show_nat id')),
                        st3)
                   | (Inl error, st3) \<Rightarrow>
                       (Inr (text_result (''Error: '' @ message error)), st3)))"

subsection \<open>callTool\<close>

text \<open>
  A call that the registry accepts: the name of a registered tool with arguments that
  satisfy its schema.
\<close>

datatype tool_call =
    GetCoordinates string
  | CreateUser string string
  | CreateRandomUser

definition run_handler ::
  "server_env \<Rightarrow> tool_call \<Rightarrow> server_state \<Rightarrow> (exn + call_tool_result) \<times> server_state" where
  "run_handler env call st =
     (case call of
        GetCoordinates city \<Rightarrow> get_coordinates env city st
      | CreateUser name email \<Rightarrow> create_user env name email st
      | CreateRandomUser \<Rightarrow> create_random_user env st)"

text \<open>
  Modelled from the spec: the dispatch of a tool call by the registry (\<^verbatim>\<open>McpServer\<close> of
  the SDK, which is not part of the sources). Section 4.2: a handler that raises an
  internal failure must be caught at the registry boundary and converted to a text
  content part describing the failure; tool failures are payloads, never protocol errors.
\<close>

definition callTool ::
  "server_env \<Rightarrow> tool_call \<Rightarrow> server_state \<Rightarrow> (exn + call_tool_result) \<times> server_state" where
  "callTool env call st =
     (case run_handler env call st of
        (Inr res, st1) \<Rightarrow> (Inr res, st1)
      | (Inl error, st1) \<Rightarrow>
          (Inr \<lparr>tr_content = [\<lparr>ptype = ''text'', ptext = Some (message error)\<rparr>],
                tr_isError = True\<rparr>, st1))"

section \<open>Sample environments and inputs\<close>

text \<open>
  An environment in which the operator denies every prompt, the model is unavailable and
  the server answers nothing; the examples below vary it.
\<close>

definition silent_env :: client_env where
  "silent_env =
     \<lparr>cenv_connect = (\<lambda>_. None),
      cenv_listTools = (\<lambda>_. Inr []),
      cenv_listResources = (\<lambda>_. Inr []),
      cenv_listResourceTemplates = (\<lambda>_. Inr []),
      cenv_listPrompts = (\<lambda>_. Inr []),
      cenv_settle_order = (\<lambda>_. [0, 1, 2, 3]),
      cenv_select = (\<lambda>_ _ _. Inr 0),
      cenv_input = (\<lambda>_ _. Inr []),
      cenv_confirm = (\<lambda>_ _. Inr False),
      cenv_generateText = (\<lambda>_ _. Inl (Error ''model unavailable'')),
      cenv_callTool = (\<lambda>_ _ _. Inl (Error ''not connected'')),
      cenv_readResource = (\<lambda>_ _. Inl (Error ''not connected'')),
      cenv_getPrompt = (\<lambda>_ _ _. Inl (Error ''not connected'')),
      cenv_JSON_parse = (\<lambda>_. Inl (Error ''Unexpected token''))\<rparr>"

definition text_message :: "string \<Rightarrow> prompt_message" where
  "text_message t = \<lparr>mrole = ''user'', mcontent = \<lparr>ctype = ''text'', ctext = t\<rparr>\<rparr>"

definition approving_env :: "(string \<Rightarrow> exn + gen_result) \<Rightarrow> client_env" where
  "approving_env model =
     silent_env\<lparr>cenv_confirm := (\<lambda>_ _. Inr True),
                cenv_generateText := (\<lambda>_ args. model (ga_prompt args))\<rparr>"

definition echo_model :: "string \<Rightarrow> exn + gen_result" where
  "echo_model p = Inr \<lparr>gr_text = ''reply to '' @ p, gr_toolResults = []\<rparr>"

definition failing_model :: "string \<Rightarrow> exn + gen_result" where
  "failing_model p =
     (if p = ''first'' then Inl (Error ''quota exceeded'') else echo_model p)"

definition blank_model :: "string \<Rightarrow> exn + gen_result" where
  "blank_model p =
     (if p = ''first'' then Inr \<lparr>gr_text = [], gr_toolResults = []\<rparr> else echo_model p)"

definition image_message :: prompt_message where
  "image_message = \<lparr>mrole = ''user'', mcontent = \<lparr>ctype = ''image'', ctext = []\<rparr>\<rparr>"

definition empty_tool_reply :: gen_result where
  "empty_tool_reply =
     \<lparr>gr_text = [],
      gr_toolResults =
        [\<lparr>tres_toolName = ''lookup'',
          tres_result = Some \<lparr>tr_content = [\<lparr>ptype = ''text'', ptext = Some []\<rparr>],
                              tr_isError = False\<rparr>\<rparr>]\<rparr>"

definition tool_reply :: gen_result where
  "tool_reply =
     \<lparr>gr_text = [],
      gr_toolResults =
        [\<lparr>tres_toolName = ''get-coordinates'',
          tres_result = Some \<lparr>tr_content = [\<lparr>ptype = ''text'',
                                               ptext = Some ''No data found for Atlantis.''\<rparr>],
                              tr_isError = False\<rparr>\<rparr>]\<rparr>"

definition query_env :: "string \<Rightarrow> gen_result \<Rightarrow> client_env" where
  "query_env query r =
     silent_env\<lparr>cenv_input := (\<lambda>_ _. Inr query), cenv_generateText := (\<lambda>_ _. Inr r)\<rparr>"

text \<open>An operator who leaves at the first menu.\<close>

definition leaving_env :: client_env where
  "leaving_env = silent_env\<lparr>cenv_select := (\<lambda>_ _ _. Inr 4)\<rparr>"

text \<open>A server whose store holds one user and whose network is down.\<close>

definition ada :: json_object where
  "ada = [(''id'', JNum 1), (''name'', JStr ''Ada''), (''email'', JStr ''ada@example.com'')]"

definition offline_server :: server_env where
  "offline_server =
     \<lparr>senv_import_users = (\<lambda>_. Inr [ada]),
      senv_fetch_json = (\<lambda>_ _. Inl (Error ''fetch failed'')),
      senv_request = (\<lambda>_ _. Inl (Error ''Request timed out'')),
      senv_writeFile = (\<lambda>_ _ _. None),
      senv_JSON_parse = (\<lambda>_. Inl (Error ''Unexpected token''))\<rparr>"

definition fresh_server :: server_state where
  "fresh_server = \<lparr>users_module = None, events = []\<rparr>"

section \<open>A run only grows\<close>

text \<open>
  Every operation of the client extends the run it starts from: the earlier events stay
  where they are.
\<close>

lemma prefix_step: "prefix (tr @ xs) tr' \<Longrightarrow> prefix tr tr'"
  by (rule append_prefixD)

lemma confirm_prefix: "confirm env msg tr = (r, tr') \<Longrightarrow> prefix tr tr'"
  by (auto simp: confirm_def split: sum.splits)

lemma input_prefix: "input env msg tr = (r, tr') \<Longrightarrow> prefix tr tr'"
  by (auto simp: input_def split: sum.splits)

lemma select_prefix: "select env msg choices tr = (r, tr') \<Longrightarrow> prefix tr tr'"
  by (auto simp: select_def Let_def split: sum.splits if_splits)

lemma handleServerMessagePrompt_prefix:
  "handleServerMessagePrompt env msg tr = (r, tr') \<Longrightarrow> prefix tr tr'"
  by (auto simp: handleServerMessagePrompt_def split: if_splits prod.splits sum.splits
        dest!: confirm_prefix dest: prefix_step)

lemma handleQuery_prefix: "handleQuery env tools tr = (r, tr') \<Longrightarrow> prefix tr tr'"
  by (auto simp: handleQuery_def split: prod.splits sum.splits
        dest!: input_prefix)

lemma collect_tool_args_prefix:
  "collect_tool_args env entries args tr = (r, tr') \<Longrightarrow> prefix tr tr'"
proof (induction entries arbitrary: args tr)
  case Nil
  then show ?case by simp
next
  case (Cons entry entries)
  obtain key v where entry: "entry = (key, v)" by (cases entry)
  show ?case
  proof (cases "js_get (Some v) ''type''")
    case (Inl e)
    with Cons.prems entry show ?thesis by simp
  next
    case (Inr ty)
    obtain a tr1 where asked:
      "input env (''Enter value for '' @ key @ '' ('' @ js_string_opt ty @ ''):'') tr = (a, tr1)"
      by (cases "input env (''Enter value for '' @ key @ '' ('' @ js_string_opt ty @ ''):'') tr")
    then have first: "prefix tr tr1" by (rule input_prefix)
    show ?thesis
    proof (cases a)
      case (Inl e)
      with Cons.prems entry Inr asked first show ?thesis by simp
    next
      case (Inr answer)
      with Cons.prems entry \<open>js_get (Some v) ''type'' = Inr ty\<close> asked
      have "collect_tool_args env entries (define_prop key answer args) tr1 = (r, tr')"
        by simp
      then have "prefix tr1 tr'" by (rule Cons.IH)
      with first show ?thesis by (rule prefix_order.trans)
    qed
  qed
qed

lemma handleTool_prefix: "handleTool env t tr = (r, tr') \<Longrightarrow> prefix tr tr'"
  by (auto simp: handleTool_def split: prod.splits sum.splits list.splits
        dest!: collect_tool_args_prefix dest: prefix_step)

lemma fill_placeholders_prefix:
  "fill_placeholders env ms uri tr = (r, tr') \<Longrightarrow> prefix tr tr'"
proof (induction ms arbitrary: uri tr)
  case Nil
  then show ?case by simp
next
  case (Cons m ms)
  let ?q = "''Enter value for '' @ js_replace ''}'' [] (js_replace ''{'' [] m) @ '':''"
  obtain a tr1 where asked: "input env ?q tr = (a, tr1)"
    by (cases "input env ?q tr")
  then have first: "prefix tr tr1" by (rule input_prefix)
  show ?case
  proof (cases a)
    case (Inl e)
    with Cons.prems asked first show ?thesis by simp
  next
    case (Inr v)
    with Cons.prems asked
    have "fill_placeholders env ms (js_replace m v uri) tr1 = (r, tr')" by simp
    then have "prefix tr1 tr'" by (rule Cons.IH)
    with first show ?thesis by (rule prefix_order.trans)
  qed
qed

lemma handleResource_prefix: "handleResource env uri tr = (r, tr') \<Longrightarrow> prefix tr tr'"
  by (auto simp: handleResource_def split: prod.splits sum.splits list.splits
        dest!: fill_placeholders_prefix dest: prefix_step)

lemma collect_prompt_args_prefix:
  "collect_prompt_args env names args tr = (r, tr') \<Longrightarrow> prefix tr tr'"
proof (induction names arbitrary: args tr)
  case Nil
  then show ?case by simp
next
  case (Cons name names)
  obtain a tr1 where asked: "input env (''Enter value for '' @ name @ '':'') tr = (a, tr1)"
    by (cases "input env (''Enter value for '' @ name @ '':'') tr")
  then have first: "prefix tr tr1" by (rule input_prefix)
  show ?case
  proof (cases a)
    case (Inl e)
    with Cons.prems asked first show ?thesis by simp
  next
    case (Inr v)
    with Cons.prems asked
    have "collect_prompt_args env names (define_prop name v args) tr1 = (r, tr')" by simp
    then have "prefix tr1 tr'" by (rule Cons.IH)
    with first show ?thesis by (rule prefix_order.trans)
  qed
qed

lemma show_prompt_messages_prefix:
  "show_prompt_messages env msgs tr = (r, tr') \<Longrightarrow> prefix tr tr'"
proof (induction msgs arbitrary: tr)
  case Nil
  then show ?case by simp
next
  case (Cons msg msgs)
  obtain a tr1 where shown: "handleServerMessagePrompt env msg tr = (a, tr1)"
    by (cases "handleServerMessagePrompt env msg tr")
  then have first: "prefix tr tr1" by (rule handleServerMessagePrompt_prefix)
  show ?case
  proof (cases a)
    case (Inl e)
    with Cons.prems shown first show ?thesis by simp
  next
    case (Inr reply)
    with Cons.prems shown
    have "show_prompt_messages env msgs (tr1 @ [ConsoleLog (''Prompt response: '' @ reply)])
            = (r, tr')" by simp
    then have "prefix (tr1 @ [ConsoleLog (''Prompt response: '' @ reply)]) tr'"
      by (rule Cons.IH)
    then have "prefix tr1 tr'" by (rule prefix_step)
    with first show ?thesis by (rule prefix_order.trans)
  qed
qed

lemma handlePrompt_prefix: "handlePrompt env p tr = (r, tr') \<Longrightarrow> prefix tr tr'"
  by (auto simp: handlePrompt_def split: prod.splits sum.splits
        dest!: collect_prompt_args_prefix show_prompt_messages_prefix dest: prefix_step
        intro: prefix_order.trans)

lemma tools_branch_prefix: "tools_branch env tools tr = (r, tr') \<Longrightarrow> prefix tr tr'"
  by (auto simp: tools_branch_def split: prod.splits sum.splits option.splits
        dest!: select_prefix handleTool_prefix dest: prefix_step intro: prefix_order.trans)

lemma resources_branch_prefix:
  "resources_branch env resources templates tr = (r, tr') \<Longrightarrow> prefix tr tr'"
  by (auto simp: resources_branch_def split: prod.splits sum.splits option.splits if_splits
        dest!: select_prefix handleResource_prefix dest: prefix_step intro: prefix_order.trans)

lemma prompts_branch_prefix: "prompts_branch env prompts tr = (r, tr') \<Longrightarrow> prefix tr tr'"
  by (auto simp: prompts_branch_def split: prod.splits sum.splits option.splits
        dest!: select_prefix handlePrompt_prefix dest: prefix_step intro: prefix_order.trans)


lemma menu_loop_prefix: "menu_loop env snap n tr = (out, tr') \<Longrightarrow> prefix tr tr'"
proof (induction n arbitrary: tr)
  case 0
  then show ?case by simp
next
  case (Suc n)
  let ?menu = "map plain_choice [''Query'', ''Tools'', ''Resources'', ''Prompts'', ''Exit'']"
  obtain a tr1 where chosen: "select env ''Select an option'' ?menu tr = (a, tr1)"
    by (cases "select env ''Select an option'' ?menu tr")
  then have first: "prefix tr tr1" by (rule select_prefix)
  show ?case
  proof (cases a)
    case (Inl e)
    with Suc.prems chosen first show ?thesis by simp
  next
    case (Inr option)
    show ?thesis
    proof (cases "option = ''Exit''")
      case True
      with Suc.prems chosen Inr have "tr' = tr1 @ [ConsoleLog ''Exiting...'']" by simp
      with first show ?thesis by (simp add: prefix_order.trans)
    next
      case False
      let ?branch = "if option = ''Query'' then handleQuery env (snap_tools snap) tr1
                   else if option = ''Tools'' then tools_branch env (snap_tools snap) tr1
                   else if option = ''Resources''
                     then resources_branch env (snap_resources snap) (snap_templates snap) tr1
                   else if option = ''Prompts'' then prompts_branch env (snap_prompts snap) tr1
                   else (Inr (), tr1)"
      obtain b tr2 where branch: "?branch = (b, tr2)" by (cases ?branch)
      then have second: "prefix tr1 tr2"
        by (auto split: if_splits
              dest: handleQuery_prefix tools_branch_prefix resources_branch_prefix
                prompts_branch_prefix)
      show ?thesis
      proof (cases b)
        case (Inl e)
        with Suc.prems chosen \<open>a = Inr option\<close> False branch have "tr' = tr2" by simp
        with first second show ?thesis by (auto intro: prefix_order.trans)
      next
        case (Inr u)
        with Suc.prems chosen \<open>a = Inr option\<close> False branch
        have "menu_loop env snap n tr2 = (out, tr')" by simp
        then have "prefix tr2 tr'" by (rule Suc.IH)
        with first second show ?thesis by (auto intro: prefix_order.trans)
      qed
    qed
  qed
qed

section \<open>Properties of the sampling bridge\<close>

lemma handleServerMessagePrompt_nontext:
  "ctype (mcontent msg) \<noteq> ''text'' \<Longrightarrow>
     handleServerMessagePrompt env msg tr = (Inr (unsupported_marker (ctype (mcontent msg))), tr)"
  by (simp add: handleServerMessagePrompt_def)

lemma handleServerMessagePrompt_denied:
  assumes "ctype (mcontent msg) = ''text''"
    and "cenv_confirm env (tr @ [ConsoleLog (ctext (mcontent msg))]) confirm_question = Inr False"
  shows "handleServerMessagePrompt env msg tr =
           (Inr cancelled_marker,
            tr @ [ConsoleLog (ctext (mcontent msg)), Confirm confirm_question False])"
  using assms by (simp add: handleServerMessagePrompt_def confirm_def)

lemma handleServerMessagePrompt_confirmed:
  assumes "ctype (mcontent msg) = ''text''"
    and "cenv_confirm env (tr @ [ConsoleLog (ctext (mcontent msg))]) confirm_question = Inr True"
  shows "handleServerMessagePrompt env msg tr =
           (map_sum id gr_text
              (cenv_generateText env
                 (tr @ [ConsoleLog (ctext (mcontent msg)), Confirm confirm_question True])
                 (prompt_args (ctext (mcontent msg)))),
            tr @ [ConsoleLog (ctext (mcontent msg)), Confirm confirm_question True,
                  Generate (prompt_args (ctext (mcontent msg)))])"
  using assms by (simp add: handleServerMessagePrompt_def confirm_def split: sum.splits)

lemma sampling_loop_append:
  "sampling_loop env (pre @ post) texts tr =
     (case sampling_loop env pre texts tr of
        (Inl e, tr') \<Rightarrow> (Inl e, tr')
      | (Inr texts', tr') \<Rightarrow> sampling_loop env post texts' tr')"
  by (induction pre arbitrary: texts tr) (auto split: prod.splits sum.splits)

lemma sampling_loop_length:
  "sampling_loop env msgs texts tr = (Inr all, tr') \<Longrightarrow>
     length all \<le> length texts + length msgs"
proof (induction msgs arbitrary: texts tr)
  case Nil
  then show ?case by simp
next
  case (Cons m ms)
  then show ?case
    by (fastforce split: prod.splits sum.splits if_splits)
qed

lemma sampling_loop_prefix:
  "sampling_loop env msgs texts tr = (r, tr') \<Longrightarrow> prefix tr tr'"
proof (induction msgs arbitrary: texts tr)
  case Nil
  then show ?case by simp
next
  case (Cons msg msgs)
  obtain a tr1 where one: "handleServerMessagePrompt env msg tr = (a, tr1)"
    by (cases "handleServerMessagePrompt env msg tr")
  then have first: "prefix tr tr1" by (rule handleServerMessagePrompt_prefix)
  show ?case
  proof (cases a)
    case (Inl e)
    with Cons.prems one first show ?thesis by simp
  next
    case (Inr reply)
    with Cons.prems one
    have "sampling_loop env msgs (if reply \<noteq> [] then texts @ [reply] else texts) tr1 = (r, tr')"
      by simp
    then have "prefix tr1 tr'" by (rule Cons.IH)
    with first show ?thesis by (rule prefix_order.trans)
  qed
qed

lemma sampling_loop_keeps:
  "sampling_loop env msgs texts tr = (Inr all, tr') \<Longrightarrow> prefix texts all"
proof (induction msgs arbitrary: texts tr)
  case Nil
  then show ?case by simp
next
  case (Cons msg msgs)
  obtain a tr1 where one: "handleServerMessagePrompt env msg tr = (a, tr1)"
    by (cases "handleServerMessagePrompt env msg tr")
  show ?case
  proof (cases a)
    case (Inl e)
    with Cons.prems one show ?thesis by simp
  next
    case (Inr reply)
    with Cons.prems one
    have "sampling_loop env msgs (if reply \<noteq> [] then texts @ [reply] else texts) tr1
            = (Inr all, tr')"
      by simp
    then have "prefix (if reply \<noteq> [] then texts @ [reply] else texts) all" by (rule Cons.IH)
    then show ?thesis by (auto split: if_splits dest: append_prefixD)
  qed
qed

text \<open>
  Claim C4. A sampling request of exactly two text messages, both denied by the operator,
  is answered with the two markers \<^verbatim>\<open>Prompt execution cancelled.\<close> joined by one
  newline, and the run gains no model call.
\<close>

theorem sampling_two_denied:
  assumes "messages request = [m1, m2]"
    and "ctype (mcontent m1) = ''text''" and "ctype (mcontent m2) = ''text''"
    and "cenv_confirm env (tr @ [ConsoleLog (ctext (mcontent m1))]) confirm_question = Inr False"
    and "cenv_confirm env
           (tr @ [ConsoleLog (ctext (mcontent m1)), Confirm confirm_question False,
                  ConsoleLog (ctext (mcontent m2))]) confirm_question = Inr False"
  shows "\<exists>res tr'. createMessageHandler env request tr = (Inr res, tr')
           \<and> res_content res =
               \<lparr>ctype = ''text'',
                ctext = ''Prompt execution cancelled.\<newline>Prompt execution cancelled.''\<rparr>
           \<and> filter is_generate tr' = filter is_generate tr"
proof -
  let ?tr1 = "tr @ [ConsoleLog (ctext (mcontent m1)), Confirm confirm_question False]"
  have first: "handleServerMessagePrompt env m1 tr = (Inr cancelled_marker, ?tr1)"
    using assms(2,4) by (rule handleServerMessagePrompt_denied)
  have "handleServerMessagePrompt env m2 ?tr1 =
          (Inr cancelled_marker,
           ?tr1 @ [ConsoleLog (ctext (mcontent m2)), Confirm confirm_question False])"
    using assms(3,5) by (intro handleServerMessagePrompt_denied) simp_all
  with first assms(1) show ?thesis
    by (simp add: createMessageHandler_def sampling_response_def cancelled_marker_def)
qed

theorem sampling_two_denied_witness:
  "\<exists>res tr'.
     createMessageHandler silent_env
       \<lparr>messages = [text_message ''first'', text_message ''second''], req_maxTokens = 1024\<rparr> []
       = (Inr res, tr')
     \<and> res_content res =
         \<lparr>ctype = ''text'',
          ctext = ''Prompt execution cancelled.\<newline>Prompt execution cancelled.''\<rparr>
     \<and> filter is_generate tr' = []"
  using sampling_two_denied
          [of "\<lparr>messages = [text_message ''first'', text_message ''second''],
                req_maxTokens = 1024\<rparr>"
              "text_message ''first''" "text_message ''second''" silent_env "[]"]
  by (simp add: silent_env_def text_message_def)

text \<open>
  Claim C2, as amended. For a text message of a sampling request that the operator
  confirms, once the messages before it have been processed: the model is called with the
  text of the message as its only prompt and with the bound of 1024 output tokens that
  \<open>handleServerMessagePrompt\<close> fixes, whatever bound the request carries; the text the
  model returns is the contribution of the message (kept when it is not empty), and a
  failing call is the outcome of the handler.
\<close>

theorem sampling_model_call_fixed_bound:
  assumes "messages request = pre @ msg # post"
    and "sampling_loop env pre [] tr = (Inr texts, tr1)"
    and "ctype (mcontent msg) = ''text''"
    and "cenv_confirm env (tr1 @ [ConsoleLog (ctext (mcontent msg))]) confirm_question = Inr True"
  shows "createMessageHandler env request tr =
     (case cenv_generateText env
             (tr1 @ [ConsoleLog (ctext (mcontent msg)), Confirm confirm_question True])
             \<lparr>ga_model = ''gemini-2.0-flash'', ga_prompt = ctext (mcontent msg),
              ga_maxTokens = 1024, ga_tools = None\<rparr> of
        Inl e \<Rightarrow>
          (Inl e,
           tr1 @ [ConsoleLog (ctext (mcontent msg)), Confirm confirm_question True,
                  Generate \<lparr>ga_model = ''gemini-2.0-flash'', ga_prompt = ctext (mcontent msg),
                            ga_maxTokens = 1024, ga_tools = None\<rparr>])
      | Inr r \<Rightarrow>
          (case sampling_loop env post
                  (if gr_text r \<noteq> [] then texts @ [gr_text r] else texts)
                  (tr1 @ [ConsoleLog (ctext (mcontent msg)), Confirm confirm_question True,
                          Generate \<lparr>ga_model = ''gemini-2.0-flash'',
                                    ga_prompt = ctext (mcontent msg),
                                    ga_maxTokens = 1024, ga_tools = None\<rparr>]) of
             (Inl e, tr') \<Rightarrow> (Inl e, tr')
           | (Inr all, tr') \<Rightarrow> (Inr (sampling_response all), tr')))"
proof -
  have "sampling_loop env (messages request) [] tr = sampling_loop env (msg # post) texts tr1"
    using assms(1,2) by (simp add: sampling_loop_append)
  then show ?thesis
    using handleServerMessagePrompt_confirmed [OF assms(3,4)]
    by (simp add: createMessageHandler_def prompt_args_def split: sum.splits)
qed

theorem sampling_model_call_fixed_bound_witness:
  "createMessageHandler (approving_env echo_model)
     \<lparr>messages = [text_message ''hello''], req_maxTokens = 16\<rparr> [] =
   (Inr (sampling_response [''reply to hello'']),
    [ConsoleLog ''hello'', Confirm confirm_question True,
     Generate \<lparr>ga_model = ''gemini-2.0-flash'', ga_prompt = ''hello'',
               ga_maxTokens = 1024, ga_tools = None\<rparr>])"
  using sampling_model_call_fixed_bound
          [of "\<lparr>messages = [text_message ''hello''], req_maxTokens = 16\<rparr>"
              "[]" "text_message ''hello''" "[]" "approving_env echo_model" "[]" "[]" "[]"]
  by (simp add: approving_env_def silent_env_def text_message_def echo_model_def)

text \<open>
  Claim C2 as stated fails: for a request that carries the bound 16, the one model call of
  the run is made with the bound 1024, and no call is made with the bound 16.
\<close>

theorem sampling_request_bound_ignored:
  "req_maxTokens \<lparr>messages = [text_message ''hello''], req_maxTokens = 16\<rparr> = 16
   \<and> snd (createMessageHandler (approving_env echo_model)
            \<lparr>messages = [text_message ''hello''], req_maxTokens = 16\<rparr> []) =
       [ConsoleLog ''hello'', Confirm confirm_question True,
        Generate \<lparr>ga_model = ''gemini-2.0-flash'', ga_prompt = ''hello'',
                  ga_maxTokens = 1024, ga_tools = None\<rparr>]
   \<and> Generate \<lparr>ga_model = ''gemini-2.0-flash'', ga_prompt = ''hello'',
                 ga_maxTokens = 16, ga_tools = None\<rparr>
       \<notin> set (snd (createMessageHandler (approving_env echo_model)
                     \<lparr>messages = [text_message ''hello''], req_maxTokens = 16\<rparr> []))"
  by (simp add: createMessageHandler_def handleServerMessagePrompt_def confirm_def
        approving_env_def silent_env_def text_message_def echo_model_def prompt_args_def)

text \<open>
  Claim C3 fails on the code: with a model that fails on the first of two confirmed text
  messages, the handler rejects with the model's error; no failure marker is contributed,
  and the second message is never shown to the operator.
\<close>

theorem sampling_model_failure_aborts:
  "createMessageHandler (approving_env failing_model)
     \<lparr>messages = [text_message ''first'', text_message ''second''], req_maxTokens = 1024\<rparr> [] =
   (Inl (Error ''quota exceeded''),
    [ConsoleLog ''first'', Confirm confirm_question True, Generate (prompt_args ''first'')])"
  by (simp add: createMessageHandler_def handleServerMessagePrompt_def confirm_def
        approving_env_def silent_env_def text_message_def failing_model_def prompt_args_def)

text \<open>
  Claim C5. For a request whose first message is not text and whose second is a text
  message that the operator confirms and the model answers: the first message raises no
  prompt (the run goes on with the display and the confirmation of the second), and any
  payload returned starts with the marker \<^verbatim>\<open>Unsupported content type: \<close> and the type
  of the first message, followed on the next line by the text the model generated, before
  the contributions of later messages. With no later message the payload is returned
  and is exactly these two lines (the marker alone when the generated text is empty).
\<close>

theorem sampling_unsupported_then_confirmed:
  assumes "messages request = m1 # m2 # rest"
    and "ctype (mcontent m1) \<noteq> ''text''" and "ctype (mcontent m2) = ''text''"
    and "cenv_confirm env (tr @ [ConsoleLog (ctext (mcontent m2))]) confirm_question = Inr True"
    and "cenv_generateText env
           (tr @ [ConsoleLog (ctext (mcontent m2)), Confirm confirm_question True])
           (prompt_args (ctext (mcontent m2))) = Inr r"
  shows "(\<forall>res tr'. createMessageHandler env request tr = (Inr res, tr') \<longrightarrow>
            prefix (tr @ [ConsoleLog (ctext (mcontent m2)), Confirm confirm_question True,
                          Generate (prompt_args (ctext (mcontent m2)))]) tr'
            \<and> (\<exists>more. ctext (res_content res) =
                  js_join ''\<newline>''
                    ((''Unsupported content type: '' @ ctype (mcontent m1))
                       # (if gr_text r = [] then [] else [gr_text r]) @ more)))
       \<and> (rest = [] \<longrightarrow>
            (\<exists>res. createMessageHandler env request tr =
               (Inr res,
                tr @ [ConsoleLog (ctext (mcontent m2)), Confirm confirm_question True,
                      Generate (prompt_args (ctext (mcontent m2)))])
             \<and> ctext (res_content res) =
                 (if gr_text r = []
                  then ''Unsupported content type: '' @ ctype (mcontent m1)
                  else ''Unsupported content type: '' @ ctype (mcontent m1)
                         @ ''\<newline>'' @ gr_text r)))"
proof -
  let ?tr3 = "tr @ [ConsoleLog (ctext (mcontent m2)), Confirm confirm_question True,
                    Generate (prompt_args (ctext (mcontent m2)))]"
  let ?texts = "(''Unsupported content type: '' @ ctype (mcontent m1))
                  # (if gr_text r = [] then [] else [gr_text r])"
  have first: "handleServerMessagePrompt env m1 tr =
                 (Inr (unsupported_marker (ctype (mcontent m1))), tr)"
    using assms(2) by (rule handleServerMessagePrompt_nontext)
  have second: "handleServerMessagePrompt env m2 tr = (Inr (gr_text r), ?tr3)"
    using handleServerMessagePrompt_confirmed [OF assms(3,4)] assms(5) by simp
  have loop: "sampling_loop env (messages request) [] tr = sampling_loop env rest ?texts ?tr3"
    using first second assms(1) by (simp add: unsupported_marker_def)
  have returned: "\<exists>all. sampling_loop env rest ?texts ?tr3 = (Inr all, tr')
                     \<and> res = sampling_response all"
    if "createMessageHandler env request tr = (Inr res, tr')" for res tr'
    using that loop by (auto simp: createMessageHandler_def split: prod.splits sum.splits)
  show ?thesis
  proof (intro conjI allI impI)
    fix res tr'
    assume "createMessageHandler env request tr = (Inr res, tr')"
    then obtain all where "sampling_loop env rest ?texts ?tr3 = (Inr all, tr')"
      using returned by blast
    then show "prefix ?tr3 tr'" by (rule sampling_loop_prefix)
  next
    fix res tr'
    assume "createMessageHandler env request tr = (Inr res, tr')"
    then obtain all where all: "sampling_loop env rest ?texts ?tr3 = (Inr all, tr')"
      and res: "res = sampling_response all"
      using returned by blast
    from all have "prefix ?texts all" by (rule sampling_loop_keeps)
    then obtain more where "all = ?texts @ more" by (auto simp: prefix_def)
    with res show "\<exists>more. ctext (res_content res) =
                  js_join ''\<newline>''
                    ((''Unsupported content type: '' @ ctype (mcontent m1))
                       # (if gr_text r = [] then [] else [gr_text r]) @ more)"
      by (auto simp: sampling_response_def)
  next
    assume "rest = []"
    with loop show "\<exists>res. createMessageHandler env request tr = (Inr res, ?tr3)
             \<and> ctext (res_content res) =
                 (if gr_text r = []
                  then ''Unsupported content type: '' @ ctype (mcontent m1)
                  else ''Unsupported content type: '' @ ctype (mcontent m1)
                         @ ''\<newline>'' @ gr_text r)"
      by (simp add: createMessageHandler_def sampling_response_def)
  qed
qed

theorem sampling_unsupported_then_confirmed_witness:
  "\<exists>res. createMessageHandler (approving_env echo_model)
            \<lparr>messages = [image_message, text_message ''hello''], req_maxTokens = 1024\<rparr> [] =
           (Inr res,
            [ConsoleLog ''hello'', Confirm confirm_question True,
             Generate (prompt_args ''hello'')])
         \<and> ctext (res_content res) = ''Unsupported content type: image\<newline>reply to hello''"
  using sampling_unsupported_then_confirmed
          [of "\<lparr>messages = [image_message, text_message ''hello''], req_maxTokens = 1024\<rparr>"
              image_message "text_message ''hello''" "[]" "approving_env echo_model" "[]"
              "\<lparr>gr_text = ''reply to hello'', gr_toolResults = []\<rparr>"]
  by (simp add: approving_env_def silent_env_def text_message_def image_message_def
        echo_model_def prompt_args_def)


text \<open>
  Claim C10. A confirmed text message for which the model returns the empty string leaves
  the array of contributions as it was: the handler goes on with the messages after it
  from the same array, and whenever it returns, the payload joins fewer contributions
  than the request has messages.
\<close>

theorem sampling_empty_reply_dropped:
  assumes "messages request = pre @ msg # post"
    and "sampling_loop env pre [] tr = (Inr texts, tr1)"
    and "ctype (mcontent msg) = ''text''"
    and "cenv_confirm env (tr1 @ [ConsoleLog (ctext (mcontent msg))]) confirm_question = Inr True"
    and "cenv_generateText env
           (tr1 @ [ConsoleLog (ctext (mcontent msg)), Confirm confirm_question True])
           (prompt_args (ctext (mcontent msg))) = Inr r"
    and "gr_text r = []"
  shows "createMessageHandler env request tr =
           (case sampling_loop env post texts
                   (tr1 @ [ConsoleLog (ctext (mcontent msg)), Confirm confirm_question True,
                           Generate (prompt_args (ctext (mcontent msg)))]) of
              (Inl e, tr') \<Rightarrow> (Inl e, tr')
            | (Inr all, tr') \<Rightarrow> (Inr (sampling_response all), tr'))
         \<and> (\<forall>all tr'.
               sampling_loop env post texts
                 (tr1 @ [ConsoleLog (ctext (mcontent msg)), Confirm confirm_question True,
                         Generate (prompt_args (ctext (mcontent msg)))]) = (Inr all, tr')
               \<longrightarrow> length all < length (messages request))"
proof (intro conjI allI impI)
  have "sampling_loop env (messages request) [] tr = sampling_loop env (msg # post) texts tr1"
    using assms(1,2) by (simp add: sampling_loop_append)
  then show "createMessageHandler env request tr =
           (case sampling_loop env post texts
                   (tr1 @ [ConsoleLog (ctext (mcontent msg)), Confirm confirm_question True,
                           Generate (prompt_args (ctext (mcontent msg)))]) of
              (Inl e, tr') \<Rightarrow> (Inl e, tr')
            | (Inr all, tr') \<Rightarrow> (Inr (sampling_response all), tr'))"
    using handleServerMessagePrompt_confirmed [OF assms(3,4)] assms(5,6)
    by (simp add: createMessageHandler_def)
next
  fix all tr'
  assume "sampling_loop env post texts
            (tr1 @ [ConsoleLog (ctext (mcontent msg)), Confirm confirm_question True,
                    Generate (prompt_args (ctext (mcontent msg)))]) = (Inr all, tr')"
  then have "length all \<le> length texts + length post"
    by (rule sampling_loop_length)
  moreover have "length texts \<le> length pre"
    using sampling_loop_length [OF assms(2)] by simp
  ultimately show "length all < length (messages request)"
    using assms(1) by simp
qed

theorem sampling_empty_reply_dropped_witness:
  "createMessageHandler (approving_env blank_model)
     \<lparr>messages = [text_message ''first'', text_message ''second''], req_maxTokens = 1024\<rparr> [] =
   (Inr \<lparr>res_role = ''user'', res_model = ''google/gemini-2.0-flash'',
         res_stopReason = ''endTurn'',
         res_content = \<lparr>ctype = ''text'', ctext = ''reply to second''\<rparr>\<rparr>,
    [ConsoleLog ''first'', Confirm confirm_question True, Generate (prompt_args ''first''),
     ConsoleLog ''second'', Confirm confirm_question True, Generate (prompt_args ''second'')])
   \<and> length [''reply to second'']
       < length (messages \<lparr>messages = [text_message ''first'', text_message ''second''],
                           req_maxTokens = 1024\<rparr>)"
  using sampling_empty_reply_dropped
          [of "\<lparr>messages = [text_message ''first'', text_message ''second''],
                req_maxTokens = 1024\<rparr>"
              "[]" "text_message ''first''" "[text_message ''second'']"
              "approving_env blank_model" "[]" "[]" "[]"
              "\<lparr>gr_text = [], gr_toolResults = []\<rparr>"]
  by (simp add: approving_env_def silent_env_def text_message_def blank_model_def
        echo_model_def handleServerMessagePrompt_def confirm_def sampling_response_def
        prompt_args_def)


section \<open>Properties of the agent loop\<close>

lemma query_answer_nonempty: "query_answer r \<noteq> []"
  by (simp add: query_answer_def no_response_def split: option.splits)

text \<open>
  Claim C1, as amended. When the model call of a query returns, the answer printed after
  \<^verbatim>\<open>Query response: \<close> is never empty and follows this order: the final text of the
  model if it is not empty; otherwise the text of the first content part of the first
  tool result if that text is present and not empty; otherwise the message
  \<^verbatim>\<open>No response generated.\<close>
\<close>

theorem query_answer_priority:
  assumes "cenv_input env tr ''Enter your query:'' = Inr query"
    and "cenv_generateText env (tr @ [Input ''Enter your query:'' query])
           (query_args query tools) = Inr r"
  shows "\<exists>answer.
           handleQuery env tools tr =
             (Inr (),
              tr @ [Input ''Enter your query:'' query, Generate (query_args query tools),
                    ConsoleLog (''Query response: '' @ answer)])
         \<and> answer \<noteq> []
         \<and> (gr_text r \<noteq> [] \<longrightarrow> answer = gr_text r)
         \<and> (\<forall>t rest res p ps txt.
               gr_text r = [] \<and> gr_toolResults r = t # rest \<and> tres_result t = Some res
                 \<and> tr_content res = p # ps \<and> ptext p = Some txt \<and> txt \<noteq> []
               \<longrightarrow> answer = txt)
         \<and> (gr_text r = [] \<and> first_tool_text (gr_toolResults r) = Some []
               \<longrightarrow> answer = ''No response generated.'')
         \<and> (gr_text r = [] \<and> first_tool_text (gr_toolResults r) = None
               \<longrightarrow> answer = ''No response generated.'')
         \<and> (gr_text r = [] \<and> gr_toolResults r = [] \<longrightarrow> answer = ''No response generated.'')"
proof -
  have run: "handleQuery env tools tr =
          (Inr (),
           tr @ [Input ''Enter your query:'' query, Generate (query_args query tools),
                 ConsoleLog (''Query response: '' @ query_answer r)])"
    using assms by (simp add: handleQuery_def input_def)
  have "gr_text r \<noteq> [] \<longrightarrow> query_answer r = gr_text r"
    by (simp add: query_answer_def)
  moreover have "\<forall>t rest res p ps txt.
               gr_text r = [] \<and> gr_toolResults r = t # rest \<and> tres_result t = Some res
                 \<and> tr_content res = p # ps \<and> ptext p = Some txt \<and> txt \<noteq> []
               \<longrightarrow> query_answer r = txt"
    by (simp add: query_answer_def first_tool_text_def)
  moreover have "gr_text r = [] \<and> first_tool_text (gr_toolResults r) = Some []
               \<longrightarrow> query_answer r = ''No response generated.''"
    by (simp add: query_answer_def no_response_def)
  moreover have "gr_text r = [] \<and> first_tool_text (gr_toolResults r) = None
               \<longrightarrow> query_answer r = ''No response generated.''"
    by (simp add: query_answer_def no_response_def)
  moreover have "gr_text r = [] \<and> gr_toolResults r = []
               \<longrightarrow> query_answer r = ''No response generated.''"
    by (simp add: query_answer_def no_response_def first_tool_text_def)
  ultimately show ?thesis
    using run query_answer_nonempty [of r] by blast
qed

theorem query_answer_priority_witness:
  "handleQuery (query_env ''where is Atlantis?'' tool_reply) [] [] =
     (Inr (),
      [Input ''Enter your query:'' ''where is Atlantis?'',
       Generate (query_args ''where is Atlantis?'' []),
       ConsoleLog ''Query response: No data found for Atlantis.''])"
  using query_answer_priority
          [of "query_env ''where is Atlantis?'' tool_reply" "[]" "''where is Atlantis?''" "[]"
              tool_reply]
  by (simp add: query_env_def silent_env_def tool_reply_def)

text \<open>
  Claim C1 as stated fails: with an empty final text and one tool invoked whose result
  text is empty, the answer printed is \<^verbatim>\<open>No response generated.\<close>, not the (empty)
  text of the first tool result.
\<close>

theorem query_answer_empty_tool_text:
  "gr_text empty_tool_reply = []
   \<and> gr_toolResults empty_tool_reply \<noteq> []
   \<and> first_tool_text (gr_toolResults empty_tool_reply) = Some []
   \<and> handleQuery (query_env ''ping'' empty_tool_reply) [] [] =
       (Inr (),
        [Input ''Enter your query:'' ''ping'', Generate (query_args ''ping'' []),
         ConsoleLog ''Query response: No response generated.''])"
  by (simp add: handleQuery_def input_def query_env_def silent_env_def empty_tool_reply_def
        first_tool_text_def query_answer_def no_response_def)


section \<open>Properties of the server\<close>

lemma not_found_body:
  "JSON_stringify (JObj [(''error'', JStr ''User not found'')]) =
     ''{\<newline>  '' @ [CHR 0x22] @ ''error'' @ [CHR 0x22] @ '': '' @ [CHR 0x22]
       @ ''User not found'' @ [CHR 0x22] @ ''\<newline>}''"
  by (simp add: JSON_stringify_def quote_def quote_char_def)

lemma find_none: "(\<forall>x\<in>set xs. \<not> P x) \<Longrightarrow> find P xs = None"
  by (simp add: find_None_iff)

lemma decimal_digits:
  "list_all (\<lambda>d. digit_value (''0123456789'' ! d) = Some d) [0, 1, 2, 3, 4, 5, 6, 7, 8, 9]"
  by (simp add: digit_value_def)

lemma below_ten: "d < 10 \<Longrightarrow> d \<in> set [0, 1, 2, 3, 4, 5, 6, 7, 8, 9 :: nat]"
  by (simp; arith)

lemma decimal_digit_value:
  "d < 10 \<Longrightarrow> digit_value (''0123456789'' ! d) = Some d"
  using decimal_digits below_ten [of d] unfolding list_all_iff by blast

lemma math_int_snoc:
  "math_int R (z @ [c]) = math_int R z * R + (case digit_value c of None \<Rightarrow> 0 | Some d \<Rightarrow> d)"
  by (simp add: math_int_def)

lemma show_nat_decimal:
  "show_nat n \<noteq> [] \<and> list_all (radix_digit 10) (show_nat n) \<and> math_int 10 (show_nat n) = n"
proof (induction n rule: show_nat.induct)
  case (1 n)
  show ?case
  proof (cases "n < 10")
    case True
    then show ?thesis
      by (simp add: show_nat.simps [of n] radix_digit_def decimal_digit_value math_int_def)
  next
    case False
    then have "n mod 10 < 10" by simp
    with False 1 show ?thesis
      by (simp add: show_nat.simps [of n] radix_digit_def decimal_digit_value math_int_snoc)
  qed
qed


lemma not_decimal:
  "is_white_space c \<Longrightarrow> \<not> radix_digit 10 c"
  "c = CHR ''+'' \<or> c = CHR ''-'' \<or> c = CHR ''x'' \<or> c = CHR ''X'' \<Longrightarrow> \<not> radix_digit 10 c"
  by (auto simp: is_white_space_def radix_digit_def digit_value_def)


lemma round_small: "n < 2 ^ 53 \<Longrightarrow> round_to_double n = Some n"
  by (simp add: round_to_double_def)

lemma parseInt_decimal:
  assumes "z \<noteq> []" and "list_all (radix_digit 10) z" and "math_int 10 z < 2 ^ 53"
  shows "parseInt z = Number (int (math_int 10 z))"
proof -
  obtain c cs where z: "z = c # cs" using assms(1) by (cases z) auto
  have c: "radix_digit 10 c" and cs: "list_all (radix_digit 10) cs"
    using assms(2) z by simp_all
  have plain: "\<not> is_white_space c" "c \<noteq> CHR ''+''" "c \<noteq> CHR ''-''"
    using c not_decimal by blast+
  have s1: "dropWhile is_white_space z = z" using plain(1) z by simp
  have nohex: "take 2 z \<noteq> ''0x''" "take 2 z \<noteq> ''0X''"
  proof -
    have "\<not> radix_digit 10 CHR ''x''" "\<not> radix_digit 10 CHR ''X''"
      using not_decimal(2) by blast+
    with cs z show "take 2 z \<noteq> ''0x''" "take 2 z \<noteq> ''0X''"
      by (cases cs; auto)+
  qed
  have hex: "(take 2 z = ''0x'' \<or> take 2 z = ''0X'') = False"
    using nohex by simp
  have sign: "(case z of [] \<Rightarrow> False | c # _ \<Rightarrow> c = CHR ''-'') = False"
    using plain(3) z by simp
  have s2: "(case z of [] \<Rightarrow> [] | c # cs \<Rightarrow> if c = CHR ''+'' \<or> c = CHR ''-'' then cs else z) = z"
    using plain(2,3) z by simp
  have all: "takeWhile (radix_digit 10) z = z"
    using assms(2) by (simp add: takeWhile_eq_all_conv list_all_iff)
  show ?thesis
    unfolding parseInt_def Let_def s1 sign s2 hex if_False all
    using assms(1) round_small [OF assms(3)] by simp
qed

lemma parseInt_show_nat: "n < 2 ^ 53 \<Longrightarrow> parseInt (show_nat n) = Number (int n)"
  using parseInt_decimal [of "show_nat n"] show_nat_decimal [of n] by simp

lemma user_details_miss:
  assumes "import_users env st = (Inr users, st1)"
    and "\<forall>u\<in>set users. \<not> strict_eq_number (get_prop ''id'' u) (parseInt id')"
  shows "user_details env href id' st =
           (Inr [\<lparr>rc_uri = href,
                  rc_text = Some (''{\<newline>  '' @ [CHR 0x22] @ ''error'' @ [CHR 0x22] @ '': ''
                              @ [CHR 0x22] @ ''User not found'' @ [CHR 0x22] @ ''\<newline>}''),
                  rc_mimeType = ''application/json''\<rparr>], st1)"
proof -
  have "find (\<lambda>u. strict_eq_number (get_prop ''id'' u) (parseInt id')) users = None"
    using assms(2) by (rule find_none)
  then show ?thesis
    using assms(1) not_found_body by (simp add: user_details_def json_content_def)
qed

lemma show_nat_7: "show_nat 7 = ''7''"
  by (simp add: show_nat.simps)

lemma parseInt_1abc: "parseInt ''1abc'' = Number 1"
  by (simp add: parseInt_def Let_def is_white_space_def radix_digit_def digit_value_def
        math_int_def round_to_double_def)

lemma ada_profile_differs:
  "JSON_stringify (JObj ada) \<noteq>
     ''{\<newline>  '' @ [CHR 0x22] @ ''error'' @ [CHR 0x22] @ '': '' @ [CHR 0x22]
       @ ''User not found'' @ [CHR 0x22] @ ''\<newline>}''"
  by (simp add: ada_def JSON_stringify_def quote_def quote_char_def)

lemma ada_found:
  "fst (user_details offline_server ''users://1abc/profile'' ''1abc'' fresh_server) =
       Inr [\<lparr>rc_uri = ''users://1abc/profile'',
              rc_text = Some (JSON_stringify (JObj ada)),
              rc_mimeType = ''application/json''\<rparr>]"
  by (simp add: user_details_def import_users_def offline_server_def fresh_server_def
        parseInt_1abc strict_eq_number_def get_prop_def ada_def json_content_def)

lemma get_coordinates_text:
  "\<exists>t st1. get_coordinates env city st = (Inr (text_result t), st1)"
proof (cases "coordinates_of city (senv_fetch_json env (events st) (geocoding_url city))")
  case (Inl e)
  then show ?thesis by (auto simp: get_coordinates_def)
next
  case (Inr res)
  then have "\<exists>t. res = text_result t"
    by (auto simp: coordinates_of_def split: sum.splits if_splits)
  with Inr show ?thesis by (auto simp: get_coordinates_def)
qed

lemma create_user_text:
  "\<exists>t st1. create_user env name email st = (Inr (text_result t), st1)"
  by (auto simp: create_user_def split: prod.splits sum.splits)

lemma create_random_user_text:
  assumes "senv_request env (events st) fake_user_request = Inr res"
  shows "\<exists>t st1. create_random_user env st = (Inr (text_result t), st1)"
  using assms by (auto simp: create_random_user_def Let_def split: prod.splits sum.splits)

lemma create_random_user_rejects:
  assumes "senv_request env (events st) fake_user_request = Inl e"
  shows "create_random_user env st =
           (Inl e, st\<lparr>events := events st @ [SamplingRequest fake_user_request]\<rparr>)"
  using assms by (simp add: create_random_user_def)

lemma run_handler_cases:
  "(\<exists>t st1. run_handler env call st = (Inr (text_result t), st1))
   \<or> (\<exists>e st1. run_handler env call st = (Inl e, st1))"
proof (cases call)
  case (GetCoordinates city)
  then show ?thesis using get_coordinates_text [of env city st] by (simp add: run_handler_def)
next
  case (CreateUser name email)
  then show ?thesis using create_user_text [of env name email st] by (simp add: run_handler_def)
next
  case CreateRandomUser
  show ?thesis
  proof (cases "senv_request env (events st) fake_user_request")
    case (Inl e)
    then show ?thesis
      using CreateRandomUser create_random_user_rejects [of env st e]
      by (simp add: run_handler_def)
  next
    case (Inr res)
    then show ?thesis
      using CreateRandomUser create_random_user_text [of env st res]
      by (simp add: run_handler_def)
  qed
qed

lemma get_coordinates_fetch_fails:
  assumes "senv_fetch_json env (events st) (geocoding_url city) = Inl e"
  shows "fst (get_coordinates env city st) =
           Inr (text_result (''Error fetching coordinates data for '' @ city @ '': ''
                  @ message e))"
  using assms by (simp add: get_coordinates_def coordinates_of_def)

lemma create_user_write_fails:
  assumes "import_users env st = (Inr users, st1)"
    and "senv_writeFile env (events st1) users_path
           (JSON_stringify (JArr (map JObj
              (users @ [spread_onto [(''id'', JNum (int (length users + 1)))]
                          (JObj [(''name'', JStr name), (''email'', JStr email)])])))) = Some e"
  shows "fst (create_user env name email st) =
           Inr (text_result (''Error creating user: '' @ message e))"
  using assms by (simp add: create_user_def createUser_def Let_def)

lemma new_user_record:
  "spread_onto [(''id'', JNum i)] (JObj [(''name'', JStr n), (''email'', JStr e)]) =
     [(''id'', JNum i), (''name'', JStr n), (''email'', JStr e)]"
  by (simp add: spread_onto_def own_props_def is_array_index_def radix_digit_def
        digit_value_def)

lemma import_users_again:
  "users_module st = Some users \<Longrightarrow> import_users env st = (Inr users, st)"
  by (simp add: import_users_def)

lemma show_nat_2: "show_nat (Suc (Suc 0)) = ''2''"
  by (simp add: show_nat.simps numeral_2_eq_2 [symmetric])

text \<open>
  Claim C6. Every accepted tool call returns a result that holds a text content part, and
  never a protocol-level failure. The handlers of \<^verbatim>\<open>get-coordinates\<close> and
  \<^verbatim>\<open>create-user\<close> return such a result themselves on every path: a failing fetch and a
  failing write of the store are caught by the handler, whose text describes the failure.
  What a handler lets escape (the rejected sampling request of \<^verbatim>\<open>create-random-user\<close>)
  is converted at the registry boundary.
\<close>

theorem callTool_always_text:
  "(\<exists>t b st1. callTool env call st =
       (Inr \<lparr>tr_content = [\<lparr>ptype = ''text'', ptext = Some t\<rparr>], tr_isError = b\<rparr>, st1))
   \<and> (call \<noteq> CreateRandomUser \<longrightarrow>
        (\<exists>t st1. run_handler env call st = (Inr (text_result t), st1)))
   \<and> (\<forall>city e. call = GetCoordinates city
          \<and> senv_fetch_json env (events st) (geocoding_url city) = Inl e
        \<longrightarrow> fst (callTool env call st) =
              Inr (text_result (''Error fetching coordinates data for '' @ city @ '': ''
                     @ message e)))
   \<and> (\<forall>name email users st1 e. call = CreateUser name email
          \<and> import_users env st = (Inr users, st1)
          \<and> senv_writeFile env (events st1) users_path
               (JSON_stringify (JArr (map JObj
                  (users @ [spread_onto [(''id'', JNum (int (length users + 1)))]
                              (JObj [(''name'', JStr name), (''email'', JStr email)])]))))
              = Some e
        \<longrightarrow> fst (callTool env call st) =
              Inr (text_result (''Error creating user: '' @ message e)))"
proof (intro conjI allI impI)
  show "\<exists>t b st1. callTool env call st =
       (Inr \<lparr>tr_content = [\<lparr>ptype = ''text'', ptext = Some t\<rparr>], tr_isError = b\<rparr>, st1)"
    using run_handler_cases [of env call st]
    by (auto simp: callTool_def text_result_def)
next
  assume "call \<noteq> CreateRandomUser"
  then show "\<exists>t st1. run_handler env call st = (Inr (text_result t), st1)"
    using get_coordinates_text create_user_text
    by (cases call) (simp_all add: run_handler_def)
next
  fix city e
  assume "call = GetCoordinates city
          \<and> senv_fetch_json env (events st) (geocoding_url city) = Inl e"
  then show "fst (callTool env call st) =
              Inr (text_result (''Error fetching coordinates data for '' @ city @ '': ''
                     @ message e))"
    using get_coordinates_fetch_fails [of env st city e]
    by (auto simp: callTool_def run_handler_def split: prod.splits sum.splits)
next
  fix name email users st1 e
  assume "call = CreateUser name email
          \<and> import_users env st = (Inr users, st1)
          \<and> senv_writeFile env (events st1) users_path
               (JSON_stringify (JArr (map JObj
                  (users @ [spread_onto [(''id'', JNum (int (length users + 1)))]
                              (JObj [(''name'', JStr name), (''email'', JStr email)])]))))
              = Some e"
  then show "fst (callTool env call st) =
              Inr (text_result (''Error creating user: '' @ message e))"
    using create_user_write_fails [of env st users st1 name email e]
    by (auto simp: callTool_def run_handler_def split: prod.splits sum.splits)
qed

theorem callTool_always_text_witness:
  "fst (callTool offline_server (GetCoordinates ''Paris'') fresh_server) =
     Inr (text_result ''Error fetching coordinates data for Paris: fetch failed'')"
  using callTool_always_text [of offline_server "GetCoordinates ''Paris''" fresh_server]
  by (simp add: offline_server_def)


text \<open>
  Claim C7, as amended. When the store loads, reading \<^verbatim>\<open>users://{id}/profile\<close> resolves
  (it is no failure) with the one content whose text is the JSON object with the single
  property \<^verbatim>\<open>error\<close> of value \<^verbatim>\<open>User not found\<close>, for every placeholder value whose
  number, as \<^verbatim>\<open>parseInt\<close> reads it (white space, a sign and a prefix \<^verbatim>\<open>0x\<close> skipped,
  then the longest run of digits, the rest ignored), is the \<^verbatim>\<open>id\<close> of no user: so for
  every decimal numeral of a number below \<open>2 ^ 53\<close> that is the \<^verbatim>\<open>id\<close> of no user, and
  for every value that \<^verbatim>\<open>parseInt\<close> reads as \<^verbatim>\<open>NaN\<close>.
\<close>

theorem user_details_not_found:
  assumes "import_users env st = (Inr users, st1)"
  shows "((\<forall>u\<in>set users. \<not> strict_eq_number (get_prop ''id'' u) (parseInt id')) \<longrightarrow>
            user_details env href id' st =
              (Inr [\<lparr>rc_uri = href,
                     rc_text = Some (''{\<newline>  '' @ [CHR 0x22] @ ''error'' @ [CHR 0x22] @ '': ''
                                 @ [CHR 0x22] @ ''User not found'' @ [CHR 0x22] @ ''\<newline>}''),
                     rc_mimeType = ''application/json''\<rparr>], st1))
       \<and> (\<forall>n. n < 2 ^ 53 \<and> id' = show_nat n
                \<and> (\<forall>u\<in>set users. get_prop ''id'' u \<noteq> Some (JNum (int n))) \<longrightarrow>
            user_details env href id' st =
              (Inr [\<lparr>rc_uri = href,
                     rc_text = Some (''{\<newline>  '' @ [CHR 0x22] @ ''error'' @ [CHR 0x22] @ '': ''
                                 @ [CHR 0x22] @ ''User not found'' @ [CHR 0x22] @ ''\<newline>}''),
                     rc_mimeType = ''application/json''\<rparr>], st1))
       \<and> (parseInt id' = NaN \<longrightarrow>
            user_details env href id' st =
              (Inr [\<lparr>rc_uri = href,
                     rc_text = Some (''{\<newline>  '' @ [CHR 0x22] @ ''error'' @ [CHR 0x22] @ '': ''
                                 @ [CHR 0x22] @ ''User not found'' @ [CHR 0x22] @ ''\<newline>}''),
                     rc_mimeType = ''application/json''\<rparr>], st1))"
proof (intro conjI allI impI)
  assume "\<forall>u\<in>set users. \<not> strict_eq_number (get_prop ''id'' u) (parseInt id')"
  with assms show "user_details env href id' st =
              (Inr [\<lparr>rc_uri = href,
                     rc_text = Some (''{\<newline>  '' @ [CHR 0x22] @ ''error'' @ [CHR 0x22] @ '': ''
                                 @ [CHR 0x22] @ ''User not found'' @ [CHR 0x22] @ ''\<newline>}''),
                     rc_mimeType = ''application/json''\<rparr>], st1)"
    by (rule user_details_miss)
next
  fix n
  assume n: "n < 2 ^ 53 \<and> id' = show_nat n
                \<and> (\<forall>u\<in>set users. get_prop ''id'' u \<noteq> Some (JNum (int n)))"
  then have "parseInt id' = Number (int n)" by (simp add: parseInt_show_nat)
  with n have "\<forall>u\<in>set users. \<not> strict_eq_number (get_prop ''id'' u) (parseInt id')"
    by (auto simp: strict_eq_number_def split: option.splits json.splits)
  with assms show "user_details env href id' st =
              (Inr [\<lparr>rc_uri = href,
                     rc_text = Some (''{\<newline>  '' @ [CHR 0x22] @ ''error'' @ [CHR 0x22] @ '': ''
                                 @ [CHR 0x22] @ ''User not found'' @ [CHR 0x22] @ ''\<newline>}''),
                     rc_mimeType = ''application/json''\<rparr>], st1)"
    by (rule user_details_miss)
next
  assume "parseInt id' = NaN"
  then have "\<forall>u\<in>set users. \<not> strict_eq_number (get_prop ''id'' u) (parseInt id')"
    by (simp add: strict_eq_number_def split: option.splits json.splits)
  with assms show "user_details env href id' st =
              (Inr [\<lparr>rc_uri = href,
                     rc_text = Some (''{\<newline>  '' @ [CHR 0x22] @ ''error'' @ [CHR 0x22] @ '': ''
                                 @ [CHR 0x22] @ ''User not found'' @ [CHR 0x22] @ ''\<newline>}''),
                     rc_mimeType = ''application/json''\<rparr>], st1)"
    by (rule user_details_miss)
qed

theorem user_details_not_found_witness:
  "user_details offline_server ''users://7/profile'' ''7'' fresh_server =
     (Inr [\<lparr>rc_uri = ''users://7/profile'',
            rc_text = Some (''{\<newline>  '' @ [CHR 0x22] @ ''error'' @ [CHR 0x22] @ '': ''
                        @ [CHR 0x22] @ ''User not found'' @ [CHR 0x22] @ ''\<newline>}''),
            rc_mimeType = ''application/json''\<rparr>],
      \<lparr>users_module = Some [ada], events = [ImportUsers]\<rparr>)"
proof -
  have load: "import_users offline_server fresh_server =
          (Inr [ada], \<lparr>users_module = Some [ada], events = [ImportUsers]\<rparr>)"
    by (simp add: import_users_def offline_server_def fresh_server_def)
  have absent: "(7::nat) < 2 ^ 53 \<and> ''7'' = show_nat 7
          \<and> (\<forall>u\<in>set [ada]. get_prop ''id'' u \<noteq> Some (JNum (int 7)))"
    by (simp add: show_nat_7 ada_def get_prop_def)
  from user_details_not_found [OF load, of "''7''" "''users://7/profile''"]
  have "\<forall>n. n < 2 ^ 53 \<and> ''7'' = show_nat n
                \<and> (\<forall>u\<in>set [ada]. get_prop ''id'' u \<noteq> Some (JNum (int n))) \<longrightarrow>
            user_details offline_server ''users://7/profile'' ''7'' fresh_server =
              (Inr [\<lparr>rc_uri = ''users://7/profile'',
                     rc_text = Some (''{\<newline>  '' @ [CHR 0x22] @ ''error'' @ [CHR 0x22] @ '': ''
                                 @ [CHR 0x22] @ ''User not found'' @ [CHR 0x22] @ ''\<newline>}''),
                     rc_mimeType = ''application/json''\<rparr>],
               \<lparr>users_module = Some [ada], events = [ImportUsers]\<rparr>)"
    by (rule conjunct1 [OF conjunct2])
  with absent show ?thesis by blast
qed

text \<open>
  Claim C7 as stated fails: in a store whose only user has the \<^verbatim>\<open>id\<close> 1, the value
  \<^verbatim>\<open>1abc\<close> is the \<^verbatim>\<open>id\<close> of no user, yet reading \<^verbatim>\<open>users://1abc/profile\<close> returns
  the profile of user 1, which is not the \<^verbatim>\<open>User not found\<close> body.
\<close>

theorem user_details_lenient_id:
  "get_prop ''id'' ada = Some (JNum 1)
   \<and> fst (user_details offline_server ''users://1abc/profile'' ''1abc'' fresh_server) =
       Inr [\<lparr>rc_uri = ''users://1abc/profile'',
              rc_text = Some (JSON_stringify (JObj ada)),
              rc_mimeType = ''application/json''\<rparr>]
   \<and> JSON_stringify (JObj ada) \<noteq>
       ''{\<newline>  '' @ [CHR 0x22] @ ''error'' @ [CHR 0x22] @ '': '' @ [CHR 0x22]
         @ ''User not found'' @ [CHR 0x22] @ ''\<newline>}''"
  using ada_found ada_profile_differs by (simp add: get_prop_def ada_def)


text \<open>
  Claim C8. On a store of \<open>N\<close> users whose file can be written, \<^verbatim>\<open>create-user\<close> with a
  name and an email reports the identifier \<open>N + 1\<close>, and a read of \<^verbatim>\<open>users://all\<close> that
  follows returns the JSON text of the former users followed by exactly the record of that
  identifier, name and email.
\<close>

theorem create_user_then_listing:
  assumes "import_users env st = (Inr users, st1)"
    and "senv_writeFile env (events st1) users_path
           (JSON_stringify (JArr (map JObj
              (users @ [[(''id'', JNum (int (length users + 1))), (''name'', JStr name),
                         (''email'', JStr email)]])))) = None"
  shows "\<exists>st2.
           callTool env (CreateUser name email) st =
             (Inr (text_result (''User '' @ show_nat (length users + 1)
                     @ '' created successfully: '' @ name @ '' ('' @ email @ '')'')), st2)
         \<and> users_resource env href st2 =
             (Inr [\<lparr>rc_uri = href,
                    rc_text = Some (JSON_stringify (JArr (map JObj
                      (users @ [[(''id'', JNum (int (length users + 1))),
                                 (''name'', JStr name), (''email'', JStr email)]])))),
                    rc_mimeType = ''application/json''\<rparr>], st2)"
proof -
  let ?users' = "users @ [[(''id'', JNum (int (length users + 1))), (''name'', JStr name),
                           (''email'', JStr email)]]"
  let ?st2 = "st1\<lparr>users_module := Some ?users',
                  events := events st1 @
                    [WriteFile users_path (JSON_stringify (JArr (map JObj ?users')))]\<rparr>"
  have created: "createUser env (JObj [(''name'', JStr name), (''email'', JStr email)]) st =
                   (Inr (length users + 1), ?st2)"
    using assms by (simp add: createUser_def Let_def new_user_record)
  then have "callTool env (CreateUser name email) st =
             (Inr (text_result (''User '' @ show_nat (length users + 1)
                     @ '' created successfully: '' @ name @ '' ('' @ email @ '')'')), ?st2)"
    by (simp add: callTool_def run_handler_def create_user_def)
  moreover have "import_users env ?st2 = (Inr ?users', ?st2)"
    by (rule import_users_again) simp
  then have "users_resource env href ?st2 =
             (Inr [\<lparr>rc_uri = href,
                    rc_text = Some (JSON_stringify (JArr (map JObj ?users'))),
                    rc_mimeType = ''application/json''\<rparr>], ?st2)"
    by (simp add: users_resource_def json_content_def)
  ultimately show ?thesis by blast
qed

theorem create_user_then_listing_witness:
  "\<exists>st2.
     callTool offline_server (CreateUser ''Bob'' ''bob@example.com'') fresh_server =
       (Inr (text_result ''User 2 created successfully: Bob (bob@example.com)''), st2)
     \<and> users_resource offline_server ''users://all'' st2 =
         (Inr [\<lparr>rc_uri = ''users://all'',
                rc_text = Some (JSON_stringify (JArr (map JObj
                  [ada, [(''id'', JNum 2), (''name'', JStr ''Bob''),
                         (''email'', JStr ''bob@example.com'')]]))),
                rc_mimeType = ''application/json''\<rparr>], st2)"
  using create_user_then_listing
          [of offline_server fresh_server "[ada]"
              "\<lparr>users_module = Some [ada], events = [ImportUsers]\<rparr>"
              "''Bob''" "''bob@example.com''" "''users://all''"]
  by (simp add: import_users_def offline_server_def fresh_server_def show_nat_2)


section \<open>Properties of the session\<close>

lemma promise_all_resolved:
  assumes "promise_all order a b c d = Inr snap"
  shows "a = Inr (snap_tools snap) \<and> b = Inr (snap_resources snap)
           \<and> c = Inr (snap_templates snap) \<and> d = Inr (snap_prompts snap)"
  using assms by (auto simp: promise_all_def split: sum.splits option.splits)

lemma prelude_no_action:
  "\<forall>e\<in>set (discovery_requests @ [AwaitAll, SetRequestHandler, ConsoleLog ''Connected!'']).
     \<not> is_action e"
  by (simp add: discovery_requests_def)

text \<open>
  Claim C9. Whenever a run of \<^verbatim>\<open>main\<close> holds an action (a prompt, a model call or a
  call to the server), all four discovery calls have resolved; the run starts with the
  connection, the four discovery requests sent one after the other, their single join and
  the registration of the sampling handler, and the action comes after all of these; and
  the menu runs on the snapshot that holds the four complete results.
\<close>

theorem actions_follow_discovery:
  assumes "main env n = (out, tr)" and "i < length tr" and "is_action (tr ! i)"
  shows "\<exists>snap.
           cenv_listTools env discovery_requests = Inr (snap_tools snap)
         \<and> cenv_listResources env discovery_requests = Inr (snap_resources snap)
         \<and> cenv_listResourceTemplates env discovery_requests = Inr (snap_templates snap)
         \<and> cenv_listPrompts env discovery_requests = Inr (snap_prompts snap)
         \<and> take 8 tr =
             [Connect, Request ''tools/list'', Request ''resources/list'',
              Request ''resources/templates/list'', Request ''prompts/list'', AwaitAll,
              SetRequestHandler, ConsoleLog ''Connected!'']
         \<and> 8 \<le> i
         \<and> main env n = menu_loop env snap n (take 8 tr)"
proof -
  let ?prelude = "discovery_requests @ [AwaitAll, SetRequestHandler, ConsoleLog ''Connected!'']"
  let ?all = "promise_all (cenv_settle_order env discovery_requests)
                (cenv_listTools env discovery_requests)
                (cenv_listResources env discovery_requests)
                (cenv_listResourceTemplates env discovery_requests)
                (cenv_listPrompts env discovery_requests)"
  have action: "is_action (tr ! i)" "tr ! i \<in> set tr"
    using assms(2,3) by simp_all
  have connected: "cenv_connect env [] = None"
  proof (rule ccontr)
    assume "cenv_connect env [] \<noteq> None"
    then have "tr = [Connect]" using assms(1) by (auto simp: main_def)
    with action show False by simp
  qed
  obtain snap where resolved: "?all = Inr snap"
  proof (cases ?all)
    case (Inl e)
    then have "tr = discovery_requests @ [AwaitAll]"
      using assms(1) connected by (simp add: main_def)
    with action have False by (auto simp: discovery_requests_def)
    then show ?thesis ..
  next
    case (Inr snap)
    then show ?thesis by (rule that)
  qed
  define prelude where
    "prelude = discovery_requests @ [AwaitAll, SetRequestHandler, ConsoleLog ''Connected!'']"
  have run: "main env n = menu_loop env snap n prelude"
    using resolved connected by (simp add: main_def prelude_def)
  with assms(1) have "prefix prelude tr" by (simp add: menu_loop_prefix)
  then obtain ext where tr: "tr = prelude @ ext" by (auto simp: prefix_def)
  have len: "length prelude = 8" by (simp add: prelude_def discovery_requests_def)
  have quiet: "\<forall>e\<in>set prelude. \<not> is_action e"
    using prelude_no_action by (simp add: prelude_def)
  have start: "take 8 tr = prelude" using tr len by simp
  have "8 \<le> i"
  proof (rule ccontr)
    assume "\<not> 8 \<le> i"
    then have inside: "i < length prelude" using len by simp
    then have "tr ! i = prelude ! i" using tr by (simp add: nth_append)
    moreover have "prelude ! i \<in> set prelude" using inside by (rule nth_mem)
    ultimately show False using action(1) quiet by simp
  qed
  moreover have "prelude =
             [Connect, Request ''tools/list'', Request ''resources/list'',
              Request ''resources/templates/list'', Request ''prompts/list'', AwaitAll,
              SetRequestHandler, ConsoleLog ''Connected!'']"
    by (simp add: prelude_def discovery_requests_def)
  ultimately show ?thesis
    using promise_all_resolved [OF resolved] start run by auto
qed

theorem actions_follow_discovery_witness:
  "is_action (snd (main leaving_env 1) ! 8)
   \<and> (\<exists>snap.
        cenv_listTools leaving_env discovery_requests = Inr (snap_tools snap)
      \<and> cenv_listResources leaving_env discovery_requests = Inr (snap_resources snap)
      \<and> cenv_listResourceTemplates leaving_env discovery_requests = Inr (snap_templates snap)
      \<and> cenv_listPrompts leaving_env discovery_requests = Inr (snap_prompts snap)
      \<and> take 8 (snd (main leaving_env 1)) =
          [Connect, Request ''tools/list'', Request ''resources/list'',
           Request ''resources/templates/list'', Request ''prompts/list'', AwaitAll,
           SetRequestHandler, ConsoleLog ''Connected!'']
      \<and> main leaving_env 1 = menu_loop leaving_env snap 1 (take 8 (snd (main leaving_env 1))))"
proof -
  have run: "main leaving_env 1 =
          (Returned,
           discovery_requests @
             [AwaitAll, SetRequestHandler, ConsoleLog ''Connected!'',
              Select ''Select an option''
                (map plain_choice [''Query'', ''Tools'', ''Resources'', ''Prompts'', ''Exit''])
                ''Exit'',
              ConsoleLog ''Exiting...''])"
    by (simp add: main_def leaving_env_def silent_env_def promise_all_def select_def
          plain_choice_def Let_def)
  then have "is_action (snd (main leaving_env 1) ! 8)"
    by (simp add: discovery_requests_def)
  moreover from run have "8 < length (snd (main leaving_env 1))"
    by (simp add: discovery_requests_def)
  ultimately show ?thesis
    using actions_follow_discovery
            [of leaving_env 1 "fst (main leaving_env 1)" "snd (main leaving_env 1)" 8]
    by simp
qed


end
